theory Spec2Isabelle
  imports Main "HOL-Library.AList"
begin

section \<open>The dotnet client of nx-dotnet: \<^verbatim>\<open>packages/dotnet/src/lib/core/dotnet.client.ts\<close>\<close>

text \<open>
  The class \<^verbatim>\<open>DotNetClient\<close> assembles the argument list of a \<^verbatim>\<open>dotnet\<close> command
  and hands it to \<^verbatim>\<open>spawnSync\<close> or \<^verbatim>\<open>spawn\<close>. The embedding keeps the three parts of
  the file apart: the character classes and the two regular expressions, the assembly
  of the argument list of each operation, and the three private helpers that dispatch
  the process.

  A JavaScript string is a list of UTF-16 code units; the model takes code units below
  256 (\<^typ>\<open>char\<close>), which covers every character the two regular expressions name.
\<close>

subsection \<open>Character classes of the regular expressions\<close>

definition dquote :: char where
  "dquote = CHR 0x22"

text \<open>\<^verbatim>\<open>\s\<close>: tab, line feed, vertical tab, form feed, carriage return, space, no-break space.\<close>

definition is_space :: "char \<Rightarrow> bool" where
  "is_space c = (c = CHR 0x09 \<or> c = CHR 0x0A \<or> c = CHR 0x0B \<or> c = CHR 0x0C \<or>
                 c = CHR 0x0D \<or> c = CHR 0x20 \<or> c = CHR 0xA0)"

text \<open>The dot of a regular expression without the \<^verbatim>\<open>s\<close> flag matches all but line terminators.\<close>

definition is_line_terminator :: "char \<Rightarrow> bool" where
  "is_line_terminator c = (c = CHR 0x0A \<or> c = CHR 0x0D)"

text \<open>\<^verbatim>\<open>\w\<close>: \<^verbatim>\<open>[A-Za-z0-9_]\<close>.\<close>

definition is_word :: "char \<Rightarrow> bool" where
  "is_word c = (let n = (of_char c :: nat) in
     (65 \<le> n \<and> n \<le> 90) \<or> (97 \<le> n \<and> n \<le> 122) \<or> (48 \<le> n \<and> n \<le> 57) \<or> n = 95)"

subsection \<open>\<^verbatim>\<open>EXTRA_PARAMS_REGEX = /\S*".+?"|\S+/g\<close>\<close>

text \<open>
  \<^verbatim>\<open>.+?"\<close> at the start of the input: the lazy quantifier takes one character, then
  tries the closing quote, and takes one more character each time the quote is not
  there. The result is the number of characters matched.
\<close>

fun lazy_quoted :: "string \<Rightarrow> nat option" where
  "lazy_quoted [] = None"
| "lazy_quoted [c] = None"
| "lazy_quoted (c # d # ds) =
     (if is_line_terminator c then None
      else if d = dquote then Some 2
      else map_option Suc (lazy_quoted (d # ds)))"

text \<open>
  The first alternative, \<^verbatim>\<open>\S*".+?"\<close>, at the start of the input. The greedy \<^verbatim>\<open>\S*\<close>
  first takes the next non-space character and goes on; when the rest fails from there
  it backtracks, stops before that character and asks for the opening quote.
\<close>

fun quoted_alt :: "string \<Rightarrow> nat option" where
  "quoted_alt [] = None"
| "quoted_alt (c # cs) =
     (case (if is_space c then None else quoted_alt cs) of
        Some n \<Rightarrow> Some (Suc n)
      | None \<Rightarrow> if c = dquote then map_option Suc (lazy_quoted cs) else None)"

text \<open>The second alternative, \<^verbatim>\<open>\S+\<close>: the longest run of non-space characters, not empty.\<close>

definition bare_alt :: "string \<Rightarrow> nat option" where
  "bare_alt s = (let n = length (takeWhile (\<lambda>c. \<not> is_space c) s) in
                   if n = 0 then None else Some n)"

text \<open>The alternation at one position: the second alternative only when the first fails.\<close>

definition match_here :: "string \<Rightarrow> nat option" where
  "match_here s = (case quoted_alt s of Some n \<Rightarrow> Some n | None \<Rightarrow> bare_alt s)"

lemma lazy_quoted_pos: "lazy_quoted s = Some n \<Longrightarrow> 0 < n"
  by (induction s arbitrary: n rule: lazy_quoted.induct) (auto split: if_splits)

lemma quoted_alt_pos: "quoted_alt s = Some n \<Longrightarrow> 0 < n"
  by (cases s) (auto split: if_splits option.splits)

lemma bare_alt_pos: "bare_alt s = Some n \<Longrightarrow> 0 < n"
  by (auto simp: bare_alt_def Let_def split: if_splits)

lemma match_here_pos: "match_here s = Some n \<Longrightarrow> 0 < n"
  by (auto simp: match_here_def split: option.splits dest: quoted_alt_pos bare_alt_pos)

text \<open>
  The global flag: every match from left to right, the search resuming where the last
  match ended, and one character further on where nothing matches.
\<close>

function match_all :: "string \<Rightarrow> string list" where
  "match_all [] = []"
| "match_all (c # cs) =
     (case match_here (c # cs) of
        Some n \<Rightarrow> take n (c # cs) # match_all (drop n (c # cs))
      | None \<Rightarrow> match_all cs)"
  by pat_completeness auto
termination
proof (relation "measure length", goal_cases)
  case 1
  show ?case by simp
next
  case (2 c cs)
  show ?case by simp
next
  case (3 c cs n)
  from match_here_pos [OF 3] show ?case by simp
qed

text \<open>\<^verbatim>\<open>String.prototype.match\<close> with a global pattern: \<^verbatim>\<open>null\<close> when nothing matches.\<close>

definition str_match :: "string \<Rightarrow> string list option" where
  "str_match s = (case match_all s of [] \<Rightarrow> None | m # ms \<Rightarrow> Some (m # ms))"

subsection \<open>Environment variables: \<^verbatim>\<open>param.replace(/\$(\w+)/, (_, varName) => process.env[varName] ?? '')\<close>\<close>

text \<open>
  The pattern has no global flag, so only the leftmost match is replaced: the first
  dollar sign that a word character follows, with the longest run of word characters
  after it. The replacement is the value of that variable, or the empty string.
  \<^verbatim>\<open>process.env\<close> is read as the map of the variables of the environment.
\<close>

fun replace_var :: "(string \<rightharpoonup> string) \<Rightarrow> string \<Rightarrow> string" where
  "replace_var ev [] = []"
| "replace_var ev (c # cs) =
     (if c = CHR ''$'' \<and> takeWhile is_word cs \<noteq> []
      then (case ev (takeWhile is_word cs) of None \<Rightarrow> [] | Some v \<Rightarrow> v) @ dropWhile is_word cs
      else c # replace_var ev cs)"

text \<open>Whether the pattern \<^verbatim>\<open>/\$(\w+)/\<close> matches somewhere in a string.\<close>

fun has_var :: "string \<Rightarrow> bool" where
  "has_var [] = False"
| "has_var (c # cs) = ((c = CHR ''$'' \<and> takeWhile is_word cs \<noteq> []) \<or> has_var cs)"

subsection \<open>Values and option objects\<close>

text \<open>
  The values an option can hold, and an options object as the list of its own
  properties in insertion order. Reading a missing property gives \<^verbatim>\<open>undefined\<close>;
  \<^verbatim>\<open>delete\<close> is \<^const>\<open>AList.delete\<close>; an assignment is \<^const>\<open>AList.update\<close>, which
  keeps the place of a property that exists and appends a new one.
\<close>

datatype jsval = JUndefined | JBool bool | JStr string

type_synonym obj = "(string \<times> jsval) list"

type_synonym keymap = "(string \<times> string) list"

definition obj_get :: "obj \<Rightarrow> string \<Rightarrow> jsval" where
  "obj_get ob k = (case map_of ob k of None \<Rightarrow> JUndefined | Some v \<Rightarrow> v)"

text \<open>\<^verbatim>\<open>parameters?.key\<close> on an optional object.\<close>

definition opt_get :: "obj option \<Rightarrow> string \<Rightarrow> jsval" where
  "opt_get po k = (case po of None \<Rightarrow> JUndefined | Some ob \<Rightarrow> obj_get ob k)"

text \<open>\<^verbatim>\<open>typeof v === 'string'\<close>.\<close>

fun is_string :: "jsval \<Rightarrow> bool" where
  "is_string (JStr s) = True"
| "is_string v = False"

subsection \<open>Code of the repository outside this file\<close>

text \<open>
  \<^verbatim>\<open>getSpawnParameterArray\<close> and \<^verbatim>\<open>swapKeysUsingMap\<close> (package \<^verbatim>\<open>@nx-dotnet/utils\<close>),
  the key maps (\<^verbatim>\<open>../models\<close>) and \<^verbatim>\<open>parseDotnetNewListOutput\<close> are imported by the
  file. They are parameters of the model: every theorem holds for all of them. They are
  taken to be functions of their arguments that leave the objects they receive alone.
\<close>

record DotnetTemplate =
  templateName :: string
  shortNames :: "string list"
  languages :: "string list"
  tags :: "string list"

record deps =
  getSpawnParameterArray :: "obj \<Rightarrow> string list"
  swapKeysUsingMap :: "obj \<Rightarrow> keymap \<Rightarrow> obj"
  buildKeyMap :: keymap
  runKeyMap :: keymap
  testKeyMap :: keymap
  publishKeyMap :: keymap
  formatKeyMap :: keymap
  parseDotnetNewListOutput :: "string \<Rightarrow> DotnetTemplate list"

subsection \<open>The \<^verbatim>\<open>semver\<close> package\<close>

text \<open>
  An external library. A version is held parsed: three numbers and the prerelease
  identifiers (build metadata plays no part in a comparison). The order is the one of
  the package: the three numbers first, then a version with prerelease identifiers
  before the same version without, then the identifiers from left to right, a numeric
  identifier before an alphanumeric one.
\<close>

datatype ident = Numeric nat | Alphanumeric string

record semver =
  major :: nat
  minor :: nat
  patch :: nat
  prerelease :: "ident list"

fun str_less :: "string \<Rightarrow> string \<Rightarrow> bool" where
  "str_less [] [] = False"
| "str_less [] (y # ys) = True"
| "str_less (x # xs) [] = False"
| "str_less (x # xs) (y # ys) =
     (if x = y then str_less xs ys else (of_char x :: nat) < of_char y)"

fun compareIdentifiers :: "ident \<Rightarrow> ident \<Rightarrow> int" where
  "compareIdentifiers (Numeric a) (Numeric b) = (if a = b then 0 else if a < b then - 1 else 1)"
| "compareIdentifiers (Numeric a) (Alphanumeric b) = - 1"
| "compareIdentifiers (Alphanumeric a) (Numeric b) = 1"
| "compareIdentifiers (Alphanumeric a) (Alphanumeric b) =
     (if a = b then 0 else if str_less a b then - 1 else 1)"

definition compareMain :: "semver \<Rightarrow> semver \<Rightarrow> int" where
  "compareMain a b =
     (if major a \<noteq> major b then (if major a < major b then - 1 else 1)
      else if minor a \<noteq> minor b then (if minor a < minor b then - 1 else 1)
      else if patch a \<noteq> patch b then (if patch a < patch b then - 1 else 1)
      else 0)"

fun comparePre_loop :: "ident list \<Rightarrow> ident list \<Rightarrow> int" where
  "comparePre_loop [] [] = 0"
| "comparePre_loop (a # as) [] = 1"
| "comparePre_loop [] (b # bs) = - 1"
| "comparePre_loop (a # as) (b # bs) =
     (if a = b then comparePre_loop as bs else compareIdentifiers a b)"

definition comparePre :: "semver \<Rightarrow> semver \<Rightarrow> int" where
  "comparePre a b =
     (if prerelease a \<noteq> [] \<and> prerelease b = [] then - 1
      else if prerelease a = [] \<and> prerelease b \<noteq> [] then 1
      else if prerelease a = [] \<and> prerelease b = [] then 0
      else comparePre_loop (prerelease a) (prerelease b))"

definition semver_compare :: "semver \<Rightarrow> semver \<Rightarrow> int" where
  "semver_compare a b = (if compareMain a b \<noteq> 0 then compareMain a b else comparePre a b)"

definition semver_lt :: "semver \<Rightarrow> semver \<Rightarrow> bool" where
  "semver_lt a b = (semver_compare a b < 0)"

definition semver_gte :: "semver \<Rightarrow> semver \<Rightarrow> bool" where
  "semver_gte a b = (semver_compare a b \<ge> 0)"

text \<open>The versions \<^verbatim>\<open>'6.0.100'\<close> and \<^verbatim>\<open>'7.0.100'\<close> the file compares with.\<close>

definition v6_0_100 :: semver where
  "v6_0_100 = \<lparr>major = 6, minor = 0, patch = 100, prerelease = []\<rparr>"

definition v7_0_100 :: semver where
  "v7_0_100 = \<lparr>major = 7, minor = 0, patch = 100, prerelease = []\<rparr>"

subsection \<open>The process, the console and the client\<close>

text \<open>
  What the file does to the outside is a sequence of events: a line written with
  \<^verbatim>\<open>console.log\<close>, a call of \<^verbatim>\<open>spawnSync\<close>, a call of \<^verbatim>\<open>spawn\<close>, each call with
  the command, the argument list, the working directory and the \<^verbatim>\<open>stdio\<close> option. The
  outcome of a process that \<^verbatim>\<open>spawnSync\<close> runs is given by the world; its status is
  \<^verbatim>\<open>null\<close> (\<^const>\<open>None\<close>) when a signal ended the process.
\<close>

datatype stdio = Inherit | Pipe

record spawn_result =
  status :: "int option"
  stdout :: string
  stderr :: string

datatype event =
  ConsoleLog string
| SpawnSync string "string list" string stdio
| Spawn string "string list" string stdio

record world =
  env :: "string \<rightharpoonup> string"
  process_cwd :: string
  spawnSync_result :: "string \<Rightarrow> string list \<Rightarrow> string \<Rightarrow> spawn_result"
  events :: "event list"

datatype js_error = Error string | TypeError

datatype ChildProcess = ChildProcess string "string list" string

text \<open>\<^verbatim>\<open>LoadedCLI\<close>: the command and \<^verbatim>\<open>info.version\<close>.\<close>

record LoadedCLI =
  command :: string
  version :: semver

record DotNetClient =
  cliCommand :: LoadedCLI
  cwd :: "string option"

text \<open>\<^verbatim>\<open>this.cwd || process.cwd()\<close>.\<close>

definition working_dir :: "DotNetClient \<Rightarrow> world \<Rightarrow> string" where
  "working_dir c w = (case cwd c of None \<Rightarrow> process_cwd w
                      | Some dir \<Rightarrow> if dir = [] then process_cwd w else dir)"

fun join :: "string \<Rightarrow> string list \<Rightarrow> string" where
  "join sep [] = []"
| "join sep [x] = x"
| "join sep (x # y # ys) = x @ sep @ join sep (y # ys)"

text \<open>The command as the log shows it: \<^verbatim>\<open>`${command} "${params.join('" "')}"`\<close>.\<close>

definition command_line :: "DotNetClient \<Rightarrow> string list \<Rightarrow> string" where
  "command_line c params =
     command (cliCommand c) @ '' '' @ [dquote] @ join ([dquote] @ '' '' @ [dquote]) params @ [dquote]"

definition console_log :: "string \<Rightarrow> world \<Rightarrow> world" where
  "console_log line w = w\<lparr>events := events w @ [ConsoleLog line]\<rparr>"

definition emit :: "event \<Rightarrow> world \<Rightarrow> world" where
  "emit e w = w\<lparr>events := events w @ [e]\<rparr>"

text \<open>A status inside a template literal: a number in decimal, or \<^verbatim>\<open>null\<close>.\<close>

function show_nat :: "nat \<Rightarrow> string" where
  "show_nat n = (if n < 10 then [char_of (48 + n)]
                 else show_nat (n div 10) @ [char_of (48 + n mod 10)])"
  by pat_completeness auto
termination
  by (relation "measure id") auto

declare show_nat.simps [simp del]

definition show_int :: "int \<Rightarrow> string" where
  "show_int i = (if i < 0 then ''-'' @ show_nat (nat (- i)) else show_nat (nat i))"

definition show_status :: "int option \<Rightarrow> string" where
  "show_status st = (case st of None \<Rightarrow> ''null'' | Some i \<Rightarrow> show_int i)"

subsection \<open>The three ways to dispatch\<close>

definition logAndExecute :: "DotNetClient \<Rightarrow> world \<Rightarrow> string list \<Rightarrow> world \<times> (js_error + unit)" where
  "logAndExecute c w params0 =
     (let params = map (replace_var (env w)) params0;
          cmd = command_line c params;
          w1 = console_log (''Executing Command: '' @ cmd) w;
          res = spawnSync_result w (command (cliCommand c)) params (working_dir c w);
          w2 = emit (SpawnSync (command (cliCommand c)) params (working_dir c w) Inherit) w1
      in if status res \<noteq> Some 0
         then (w2, Inl (Error (''dotnet execution returned status code '' @ show_status (status res))))
         else (w2, Inr ()))"

definition spawnAndGetOutput :: "DotNetClient \<Rightarrow> world \<Rightarrow> string list \<Rightarrow> world \<times> (js_error + string)" where
  "spawnAndGetOutput c w params0 =
     (let params = map (replace_var (env w)) params0;
          res = spawnSync_result w (command (cliCommand c)) params (working_dir c w);
          w1 = emit (SpawnSync (command (cliCommand c)) params (working_dir c w) Pipe) w
      in if status res \<noteq> Some 0
         then (w1, Inl (Error (''dotnet execution returned status code '' @ show_status (status res)
                                @ [CHR '' '', CHR 0x0A, CHR '' ''] @ stderr res)))
         else (w1, Inr (stdout res)))"

definition logAndSpawn :: "DotNetClient \<Rightarrow> world \<Rightarrow> string list \<Rightarrow> world \<times> ChildProcess" where
  "logAndSpawn c w params =
     (let w1 = console_log (''Executing Command: '' @ command_line c params) w;
          w2 = emit (Spawn (command (cliCommand c)) params (working_dir c w) Inherit) w1
      in (w2, ChildProcess (command (cliCommand c)) params (working_dir c w)))"

subsection \<open>The operations\<close>

text \<open>
  \<^verbatim>\<open>if (parameters) { parameters = swapKeysUsingMap(parameters, keyMap);
  params.push(...getSpawnParameterArray(parameters)); }\<close>: an object is always truthy.
\<close>

definition mapped_options :: "deps \<Rightarrow> keymap \<Rightarrow> obj option \<Rightarrow> string list" where
  "mapped_options d km parameters =
     (case parameters of None \<Rightarrow> []
      | Some ob \<Rightarrow> getSpawnParameterArray d (swapKeysUsingMap d ob km))"

text \<open>
  \<^verbatim>\<open>if (extraParameters) { const matches = extraParameters.match(EXTRA_PARAMS_REGEX);
  params.push(...(matches as string[])); }\<close>: spreading \<^verbatim>\<open>null\<close> throws a \<^verbatim>\<open>TypeError\<close>.
\<close>

definition extra_tokens :: "string option \<Rightarrow> js_error + string list" where
  "extra_tokens extraParameters =
     (case extraParameters of None \<Rightarrow> Inr []
      | Some s \<Rightarrow> if s = [] then Inr []
                  else (case str_match s of None \<Rightarrow> Inl TypeError | Some matches \<Rightarrow> Inr matches))"

text \<open>The truth value of an optional boolean.\<close>

definition truthy_bool :: "bool option \<Rightarrow> bool" where
  "truthy_bool b = (b = Some True)"

text \<open>
  The tokens pushed for an optional string under \<^verbatim>\<open>if (s) params.push(s)\<close>:
  \<^verbatim>\<open>undefined\<close> and the empty string are falsy.
\<close>

definition if_given :: "string option \<Rightarrow> string list" where
  "if_given so = (case so of None \<Rightarrow> [] | Some s \<Rightarrow> if s = [] then [] else [s])"

record list_opts =
  search :: "string option"
  language :: "string option"

definition opt_search :: "list_opts option \<Rightarrow> string option" where
  "opt_search opts = (case opts of None \<Rightarrow> None | Some ot \<Rightarrow> search ot)"

definition opt_language :: "list_opts option \<Rightarrow> string option" where
  "opt_language opts = (case opts of None \<Rightarrow> None | Some ot \<Rightarrow> language ot)"

definition listInstalledTemplates_params :: "semver \<Rightarrow> list_opts option \<Rightarrow> string list" where
  "listInstalledTemplates_params v opts =
     [''new'']
     @ (if semver_lt v v6_0_100 then if_given (opt_search opts) else [])
     @ (if semver_gte v v7_0_100 then [''list''] else [''--list''])
     @ (if semver_gte v v6_0_100 then if_given (opt_search opts) else [])
     @ (case if_given (opt_language opts) of [] \<Rightarrow> [] | l # ls \<Rightarrow> [''--language'', l])"

definition listInstalledTemplates ::
  "deps \<Rightarrow> DotNetClient \<Rightarrow> world \<Rightarrow> list_opts option \<Rightarrow> world \<times> (js_error + DotnetTemplate list)" where
  "listInstalledTemplates d c w opts =
     (case spawnAndGetOutput c w (listInstalledTemplates_params (version (cliCommand c)) opts) of
        (w', Inl e) \<Rightarrow> (w', Inl e)
      | (w', Inr output) \<Rightarrow> (w', Inr (parseDotnetNewListOutput d output)))"

definition build_params :: "deps \<Rightarrow> string \<Rightarrow> obj option \<Rightarrow> string option \<Rightarrow> js_error + string list" where
  "build_params d project parameters extraParameters =
     (case extra_tokens extraParameters of
        Inl e \<Rightarrow> Inl e
      | Inr matches \<Rightarrow> Inr ([''build'', project] @ mapped_options d (buildKeyMap d) parameters @ matches))"

definition build ::
  "deps \<Rightarrow> DotNetClient \<Rightarrow> world \<Rightarrow> string \<Rightarrow> obj option \<Rightarrow> string option \<Rightarrow> world \<times> (js_error + unit)" where
  "build d c w project parameters extraParameters =
     (case build_params d project parameters extraParameters of
        Inl e \<Rightarrow> (w, Inl e)
      | Inr params \<Rightarrow> logAndExecute c w params)"

definition run_params :: "deps \<Rightarrow> string \<Rightarrow> bool option \<Rightarrow> obj option \<Rightarrow> string list" where
  "run_params d project watch parameters =
     (if truthy_bool watch then [''watch'', ''--project'', project, ''run'']
      else [''run'', ''--project'', project])
     @ mapped_options d (runKeyMap d) parameters"

definition run ::
  "deps \<Rightarrow> DotNetClient \<Rightarrow> world \<Rightarrow> string \<Rightarrow> bool option \<Rightarrow> obj option \<Rightarrow> world \<times> ChildProcess" where
  "run d c w project watch parameters = logAndSpawn c w (run_params d project watch parameters)"

definition test_params ::
  "deps \<Rightarrow> string \<Rightarrow> bool option \<Rightarrow> obj option \<Rightarrow> string option \<Rightarrow> js_error + string list" where
  "test_params d project watch parameters extraParameters =
     (case extra_tokens extraParameters of
        Inl e \<Rightarrow> Inl e
      | Inr matches \<Rightarrow>
          Inr ((if truthy_bool watch then [''watch'', ''--project'', project, ''test'']
                else [''test'', project])
               @ mapped_options d (testKeyMap d) parameters @ matches))"

text \<open>\<^verbatim>\<open>test\<close> returns nothing after a blocking call and the handle when it watches.\<close>

definition test ::
  "deps \<Rightarrow> DotNetClient \<Rightarrow> world \<Rightarrow> string \<Rightarrow> bool option \<Rightarrow> obj option \<Rightarrow> string option
     \<Rightarrow> world \<times> (js_error + ChildProcess option)" where
  "test d c w project watch parameters extraParameters =
     (case test_params d project watch parameters extraParameters of
        Inl e \<Rightarrow> (w, Inl e)
      | Inr params \<Rightarrow>
          if \<not> truthy_bool watch
          then (case logAndExecute c w params of
                  (w', Inl e) \<Rightarrow> (w', Inl e)
                | (w', Inr u) \<Rightarrow> (w', Inr None))
          else (case logAndSpawn c w params of (w', h) \<Rightarrow> (w', Inr (Some h))))"

definition publish_params ::
  "deps \<Rightarrow> string \<Rightarrow> obj option \<Rightarrow> string option \<Rightarrow> string option \<Rightarrow> js_error + string list" where
  "publish_params d project parameters publishProfile extraParameters =
     (case extra_tokens extraParameters of
        Inl e \<Rightarrow> Inl e
      | Inr matches \<Rightarrow>
          Inr ([''publish'', [dquote] @ project @ [dquote]]
               @ mapped_options d (publishKeyMap d) parameters
               @ (case if_given publishProfile of [] \<Rightarrow> []
                  | pp # ps \<Rightarrow> [''-p:PublishProfile='' @ pp])
               @ matches))"

definition publish ::
  "deps \<Rightarrow> DotNetClient \<Rightarrow> world \<Rightarrow> string \<Rightarrow> obj option \<Rightarrow> string option \<Rightarrow> string option
     \<Rightarrow> world \<times> (js_error + unit)" where
  "publish d c w project parameters publishProfile extraParameters =
     (case publish_params d project parameters publishProfile extraParameters of
        Inl e \<Rightarrow> (w, Inl e)
      | Inr params \<Rightarrow> logAndExecute c w params)"

text \<open>\<^verbatim>\<open>runTool\<close> passes its parameters to \<^verbatim>\<open>getSpawnParameterArray\<close> without a key map.\<close>

definition runTool_params ::
  "deps \<Rightarrow> string \<Rightarrow> string list option \<Rightarrow> obj option \<Rightarrow> string option \<Rightarrow> js_error + string list" where
  "runTool_params d tool positionalParameters parameters extraParameters =
     (case extra_tokens extraParameters of
        Inl e \<Rightarrow> Inl e
      | Inr matches \<Rightarrow>
          Inr ([''tool'', ''run'', tool]
               @ (case positionalParameters of None \<Rightarrow> [] | Some ps \<Rightarrow> ps)
               @ (case parameters of None \<Rightarrow> [] | Some ob \<Rightarrow> getSpawnParameterArray d ob)
               @ matches))"

definition runTool ::
  "deps \<Rightarrow> DotNetClient \<Rightarrow> world \<Rightarrow> string \<Rightarrow> string list option \<Rightarrow> obj option \<Rightarrow> string option
     \<Rightarrow> world \<times> (js_error + unit)" where
  "runTool d c w tool positionalParameters parameters extraParameters =
     (case runTool_params d tool positionalParameters parameters extraParameters of
        Inl e \<Rightarrow> (w, Inl e)
      | Inr params \<Rightarrow> logAndExecute c w params)"

subsection \<open>\<^verbatim>\<open>format\<close>\<close>

text \<open>
  The test that sends \<^verbatim>\<open>format\<close> down the path of one call for each of
  \<^verbatim>\<open>whitespace\<close>, \<^verbatim>\<open>style\<close> and \<^verbatim>\<open>analyzers\<close>.
\<close>

definition format_split :: "DotNetClient \<Rightarrow> obj option \<Rightarrow> bool" where
  "format_split c parameters =
     (major (version (cliCommand c)) \<ge> 6 \<and>
      (opt_get parameters ''fixWhitespace'' \<noteq> JUndefined \<or>
       opt_get parameters ''fixStyle'' \<noteq> JUndefined \<or>
       opt_get parameters ''fixAnalyzers'' \<noteq> JUndefined))"

definition format_prefix :: "bool option \<Rightarrow> string list" where
  "format_prefix forceToolUsage =
     (if truthy_bool forceToolUsage then [''tool'', ''run'', ''dotnet-format'', ''--''] else [''format''])"

text \<open>The object of the caller once the three keys are deleted from it.\<close>

definition without_fix_keys :: "obj \<Rightarrow> obj" where
  "without_fix_keys ob =
     AList.delete ''fixAnalyzers'' (AList.delete ''fixStyle'' (AList.delete ''fixWhitespace'' ob))"

text \<open>
  The argument list of each sub-invocation, from the object after the deletions: a copy
  of it, the \<^verbatim>\<open>severity\<close> set on the copy when the flag was a string, and the key of
  the flag deleted from the copy.
\<close>

definition whitespace_params :: "deps \<Rightarrow> string list \<Rightarrow> string \<Rightarrow> obj \<Rightarrow> string list" where
  "whitespace_params d params project ob =
     params @ [''whitespace'', project] @ getSpawnParameterArray d (AList.delete ''fixWhitespace'' ob)"

definition style_params :: "deps \<Rightarrow> string list \<Rightarrow> string \<Rightarrow> jsval \<Rightarrow> obj \<Rightarrow> string list" where
  "style_params d params project style ob =
     params @ [''style'', project]
     @ getSpawnParameterArray d
         (AList.delete ''fixStyle'' (if is_string style then AList.update ''severity'' style ob else ob))"

definition analyzers_params :: "deps \<Rightarrow> string list \<Rightarrow> string \<Rightarrow> jsval \<Rightarrow> obj \<Rightarrow> string list" where
  "analyzers_params d params project analyzers ob =
     params @ [''analyzers'', project]
     @ getSpawnParameterArray d
         (AList.delete ''fixAnalyzers'' (if is_string analyzers then AList.update ''severity'' analyzers ob else ob))"

text \<open>
  \<^verbatim>\<open>if (flag !== false) { ...; this.logAndExecute(subcommandParams); }\<close>: the
  sub-invocation runs unless its flag is the boolean \<^verbatim>\<open>false\<close>.
\<close>

definition unless_false ::
  "jsval \<Rightarrow> DotNetClient \<Rightarrow> world \<Rightarrow> string list \<Rightarrow> world \<times> (js_error + unit)" where
  "unless_false flag c w subcommandParams =
     (if flag \<noteq> JBool False then logAndExecute c w subcommandParams else (w, Inr ()))"

text \<open>
  \<^verbatim>\<open>format\<close> returns the world, the caller's parameters object as the call leaves it,
  and the outcome. An exception of one sub-invocation ends the call, so the later ones
  do not run. The branch for no object under the split test cannot be reached; there
  the source would read a property of \<^verbatim>\<open>undefined\<close>.
\<close>

definition format ::
  "deps \<Rightarrow> DotNetClient \<Rightarrow> world \<Rightarrow> string \<Rightarrow> obj option \<Rightarrow> bool option
     \<Rightarrow> world \<times> obj option \<times> (js_error + unit)" where
  "format d c w project parameters forceToolUsage =
     (let params = format_prefix forceToolUsage in
      if format_split c parameters then
        (case parameters of
           None \<Rightarrow> (w, None, Inl TypeError)
         | Some ob0 \<Rightarrow>
            (let whitespace = obj_get ob0 ''fixWhitespace'';
                 style = obj_get ob0 ''fixStyle'';
                 analyzers = obj_get ob0 ''fixAnalyzers'';
                 ob = without_fix_keys ob0
             in case unless_false whitespace c w (whitespace_params d params project ob) of
                  (w1, Inl e) \<Rightarrow> (w1, Some ob, Inl e)
                | (w1, Inr u1) \<Rightarrow>
                   (case unless_false style c w1 (style_params d params project style ob) of
                      (w2, Inl e) \<Rightarrow> (w2, Some ob, Inl e)
                    | (w2, Inr u2) \<Rightarrow>
                       (case unless_false analyzers c w2 (analyzers_params d params project analyzers ob) of
                          (w3, r3) \<Rightarrow> (w3, Some ob, r3)))))
      else
        (case logAndExecute c w (params @ [project] @ mapped_options d (formatKeyMap d) parameters) of
           (w', r) \<Rightarrow> (w', parameters, r)))"

subsection \<open>What a run dispatches\<close>

text \<open>The argument lists handed to \<^verbatim>\<open>spawnSync\<close> and \<^verbatim>\<open>spawn\<close>, in the order of the calls.\<close>

fun dispatched :: "event list \<Rightarrow> string list list" where
  "dispatched [] = []"
| "dispatched (ConsoleLog line # es) = dispatched es"
| "dispatched (SpawnSync cmd args dir io # es) = args # dispatched es"
| "dispatched (Spawn cmd args dir io # es) = args # dispatched es"

text \<open>
  The status the world gives to the process that a blocking helper starts for a list of
  tokens: the tokens after the substitution, in the working directory of the client.
\<close>

definition exit_status :: "DotNetClient \<Rightarrow> world \<Rightarrow> string list \<Rightarrow> int option" where
  "exit_status c w params =
     status (spawnSync_result w (command (cliCommand c)) (map (replace_var (env w)) params) (working_dir c w))"

subsection \<open>A concrete client, world and set of imported functions\<close>

text \<open>
  Modelled from the spec: \<^verbatim>\<open>getSpawnParameterArray\<close> and \<^verbatim>\<open>swapKeysUsingMap\<close> are not
  part of the file. The spec has a key of the map renamed and every other key passed
  through, a flag token alone for \<^verbatim>\<open>true\<close>, nothing for \<^verbatim>\<open>false\<close> and \<^verbatim>\<open>undefined\<close>,
  and the flag token followed by the value for a string. The flag token is taken to be
  the key after two dashes. These two serve as the functions of the concrete instances
  below; no general theorem depends on them.
\<close>

fun flag_tokens :: "string \<times> jsval \<Rightarrow> string list" where
  "flag_tokens (k, JBool True) = [''--'' @ k]"
| "flag_tokens (k, JBool False) = []"
| "flag_tokens (k, JStr v) = [''--'' @ k, v]"
| "flag_tokens (k, JUndefined) = []"

definition spec_getSpawnParameterArray :: "obj \<Rightarrow> string list" where
  "spec_getSpawnParameterArray ob = concat (map flag_tokens ob)"

definition spec_swapKeysUsingMap :: "obj \<Rightarrow> keymap \<Rightarrow> obj" where
  "spec_swapKeysUsingMap ob km =
     map (\<lambda>kv. (case map_of km (fst kv) of None \<Rightarrow> fst kv | Some k' \<Rightarrow> k', snd kv)) ob"

definition sample_deps :: deps where
  "sample_deps =
     \<lparr>getSpawnParameterArray = spec_getSpawnParameterArray,
      swapKeysUsingMap = spec_swapKeysUsingMap,
      buildKeyMap = [(''noRestore'', ''no-restore'')],
      runKeyMap = [(''noBuild'', ''no-build'')],
      testKeyMap = [(''noBuild'', ''no-build'')],
      publishKeyMap = [(''noBuild'', ''no-build'')],
      formatKeyMap = [(''fixWhitespace'', ''fix-whitespace''), (''fixStyle'', ''fix-style''),
                      (''fixAnalyzers'', ''fix-analyzers'')],
      parseDotnetNewListOutput = (\<lambda>output. [])\<rparr>"

definition sample_client :: "semver \<Rightarrow> DotNetClient" where
  "sample_client v = \<lparr>cliCommand = \<lparr>command = ''dotnet'', version = v\<rparr>, cwd = None\<rparr>"

text \<open>A world where \<^verbatim>\<open>HOME\<close> is set and every process exits with the given status.\<close>

definition sample_world :: "int \<Rightarrow> world" where
  "sample_world st =
     \<lparr>env = [''HOME'' \<mapsto> ''/home/user''],
      process_cwd = ''/work'',
      spawnSync_result = (\<lambda>cmd args dir. \<lparr>status = Some st, stdout = ''out'', stderr = ''err''\<rparr>),
      events = []\<rparr>"

section \<open>Properties\<close>

subsection \<open>The tokens of the extra parameters\<close>

lemma lazy_quoted_shape:
  "lazy_quoted s = Some m \<Longrightarrow>
     \<exists>body. take m s = body @ [dquote] \<and> body \<noteq> [] \<and> m \<le> length s \<and>
            (\<forall>c\<in>set body. \<not> is_line_terminator c) \<and> dquote \<notin> set (tl body)"
proof (induction s arbitrary: m rule: lazy_quoted.induct)
  case 1
  then show ?case by simp
next
  case (2 c)
  then show ?case by simp
next
  case (3 c d ds)
  show ?case
  proof (cases "d = dquote")
    case True
    with 3(2) have nl: "\<not> is_line_terminator c" and m: "m = 2"
      by (auto split: if_splits)
    have "take m (c # d # ds) = [c] @ [dquote]" using m True by simp
    then show ?thesis using nl m by (intro exI [of _ "[c]"]) simp
  next
    case False
    with 3(2) have nl: "\<not> is_line_terminator c"
      and "map_option Suc (lazy_quoted (d # ds)) = Some m"
      by (auto split: if_splits)
    then obtain k where k: "lazy_quoted (d # ds) = Some k" and m: "m = Suc k"
      by auto
    from 3(1) [OF nl False k] obtain body where
      b: "take k (d # ds) = body @ [dquote]" "body \<noteq> []" "k \<le> length (d # ds)"
         "\<forall>c\<in>set body. \<not> is_line_terminator c" "dquote \<notin> set (tl body)"
      by blast
    from b(1,2) lazy_quoted_pos [OF k] have hd: "hd body = d"
      by (cases body; cases k) auto
    with b(2) False have "dquote \<notin> set body"
      using b(5) by (cases body) auto
    then have "take m (c # d # ds) = (c # body) @ [dquote] \<and> c # body \<noteq> [] \<and>
        m \<le> length (c # d # ds) \<and> (\<forall>x\<in>set (c # body). \<not> is_line_terminator x) \<and>
        dquote \<notin> set (tl (c # body))"
      using b nl m by simp
    then show ?thesis by blast
  qed
qed

lemma quoted_alt_shape:
  "quoted_alt s = Some n \<Longrightarrow>
     \<exists>pre body. take n s = pre @ [dquote] @ body @ [dquote] \<and> n \<le> length s \<and>
        (\<forall>c\<in>set pre. \<not> is_space c) \<and> body \<noteq> [] \<and>
        (\<forall>c\<in>set body. \<not> is_line_terminator c) \<and> dquote \<notin> set (tl body)"
proof (induction s arbitrary: n)
  case Nil
  then show ?case by simp
next
  case (Cons c cs)
  show ?case
  proof (cases "if is_space c then None else quoted_alt cs")
    case (Some k)
    then have sp: "\<not> is_space c" and k: "quoted_alt cs = Some k"
      by (auto split: if_splits)
    from Cons.prems Some have n: "n = Suc k" by simp
    from Cons.IH [OF k] obtain pre body where
      b: "take k cs = pre @ [dquote] @ body @ [dquote]" "k \<le> length cs"
         "\<forall>c\<in>set pre. \<not> is_space c" "body \<noteq> []"
         "\<forall>c\<in>set body. \<not> is_line_terminator c" "dquote \<notin> set (tl body)"
      by blast
    have "take n (c # cs) = (c # pre) @ [dquote] @ body @ [dquote] \<and> n \<le> length (c # cs) \<and>
        (\<forall>x\<in>set (c # pre). \<not> is_space x) \<and> body \<noteq> [] \<and>
        (\<forall>c\<in>set body. \<not> is_line_terminator c) \<and> dquote \<notin> set (tl body)"
      using b sp n by simp
    then show ?thesis by blast
  next
    case None
    with Cons.prems have c: "c = dquote" and "map_option Suc (lazy_quoted cs) = Some n"
      by (auto split: if_splits)
    then obtain m where m: "lazy_quoted cs = Some m" and n: "n = Suc m"
      by auto
    from lazy_quoted_shape [OF m] obtain body where
      b: "take m cs = body @ [dquote]" "body \<noteq> []" "m \<le> length cs"
         "\<forall>c\<in>set body. \<not> is_line_terminator c" "dquote \<notin> set (tl body)"
      by blast
    have "take n (c # cs) = [] @ [dquote] @ body @ [dquote] \<and> n \<le> length (c # cs) \<and>
        (\<forall>x\<in>set ([]::string). \<not> is_space x) \<and> body \<noteq> [] \<and>
        (\<forall>c\<in>set body. \<not> is_line_terminator c) \<and> dquote \<notin> set (tl body)"
      using b c n by simp
    then show ?thesis by blast
  qed
qed

lemma bare_alt_shape:
  "bare_alt s = Some n \<Longrightarrow> take n s = takeWhile (\<lambda>c. \<not> is_space c) s \<and> 0 < n"
  by (auto simp: bare_alt_def Let_def takeWhile_eq_take [symmetric] split: if_splits)

lemma flag_other_tokens:
  "str_match (''--flag='' @ [dquote] @ ''a b c'' @ [dquote] @ '' --other=x'')
     = Some [''--flag='' @ [dquote] @ ''a b c'' @ [dquote], ''--other=x'']"
  by (simp add: str_match_def match_here_def bare_alt_def is_space_def
      is_line_terminator_def dquote_def)

text \<open>
  C7. The string \<^verbatim>\<open>--flag="a b c" --other=x\<close> is cut into exactly the two tokens
  \<^verbatim>\<open>--flag="a b c"\<close> and \<^verbatim>\<open>--other=x\<close>, and \<^verbatim>\<open>build\<close> appends these two to its
  argument list. Every match of the pattern is of one of two kinds: a run without
  spaces, an opening quote, a body that is not empty and has no line terminator, and a
  closing quote (the whole kept as one token); or, when no such match starts at that
  place, the longest run of non-space characters.
\<close>

theorem extra_params_tokens:
  "str_match (''--flag='' @ [dquote] @ ''a b c'' @ [dquote] @ '' --other=x'')
     = Some [''--flag='' @ [dquote] @ ''a b c'' @ [dquote], ''--other=x'']
   \<and> build_params d project None (Some (''--flag='' @ [dquote] @ ''a b c'' @ [dquote] @ '' --other=x''))
     = Inr [''build'', project, ''--flag='' @ [dquote] @ ''a b c'' @ [dquote], ''--other=x'']
   \<and> (\<forall>s n. match_here s = Some n \<longrightarrow>
         (quoted_alt s = Some n \<and>
          (\<exists>pre body. take n s = pre @ [dquote] @ body @ [dquote] \<and>
             (\<forall>c\<in>set pre. \<not> is_space c) \<and> body \<noteq> [] \<and>
             (\<forall>c\<in>set body. \<not> is_line_terminator c)))
         \<or> (quoted_alt s = None \<and> 0 < n \<and> take n s = takeWhile (\<lambda>c. \<not> is_space c) s))"
proof (intro conjI allI impI)
  show "str_match (''--flag='' @ [dquote] @ ''a b c'' @ [dquote] @ '' --other=x'')
     = Some [''--flag='' @ [dquote] @ ''a b c'' @ [dquote], ''--other=x'']"
    by (rule flag_other_tokens)
next
  show "build_params d project None (Some (''--flag='' @ [dquote] @ ''a b c'' @ [dquote] @ '' --other=x''))
     = Inr [''build'', project, ''--flag='' @ [dquote] @ ''a b c'' @ [dquote], ''--other=x'']"
    using flag_other_tokens
    by (simp add: build_params_def extra_tokens_def mapped_options_def)
next
  fix s n
  assume m: "match_here s = Some n"
  show "(quoted_alt s = Some n \<and>
         (\<exists>pre body. take n s = pre @ [dquote] @ body @ [dquote] \<and>
             (\<forall>c\<in>set pre. \<not> is_space c) \<and> body \<noteq> [] \<and>
             (\<forall>c\<in>set body. \<not> is_line_terminator c)))
         \<or> (quoted_alt s = None \<and> 0 < n \<and> take n s = takeWhile (\<lambda>c. \<not> is_space c) s)"
  proof (cases "quoted_alt s")
    case None
    with m have "bare_alt s = Some n" by (simp add: match_here_def)
    with None show ?thesis by (simp add: bare_alt_shape)
  next
    case (Some k)
    with m have q: "quoted_alt s = Some n" by (simp add: match_here_def)
    from quoted_alt_shape [OF q] q show ?thesis by blast
  qed
qed

theorem extra_params_tokens_witness:
  "match_here ''--other=x'' = Some 9 \<and> quoted_alt ''--other=x'' = None \<and>
   take 9 ''--other=x'' = takeWhile (\<lambda>c. \<not> is_space c) ''--other=x'' \<and>
   match_here (''-f='' @ [dquote] @ ''a b'' @ [dquote] @ '' x'') = Some 8 \<and>
   (\<exists>pre body. take 8 (''-f='' @ [dquote] @ ''a b'' @ [dquote] @ '' x'') = pre @ [dquote] @ body @ [dquote] \<and>
       (\<forall>c\<in>set pre. \<not> is_space c) \<and> body \<noteq> [] \<and> (\<forall>c\<in>set body. \<not> is_line_terminator c))"
proof -
  have a: "match_here ''--other=x'' = Some 9"
    by (simp add: match_here_def bare_alt_def is_space_def dquote_def)
  have q: "quoted_alt ''--other=x'' \<noteq> Some 9"
    by (simp add: is_space_def dquote_def)
  have b: "match_here (''-f='' @ [dquote] @ ''a b'' @ [dquote] @ '' x'') = Some 8"
    by (simp add: match_here_def is_space_def is_line_terminator_def dquote_def)
  have nb: "quoted_alt (''-f='' @ [dquote] @ ''a b'' @ [dquote] @ '' x'') \<noteq> None"
    by (simp add: is_space_def is_line_terminator_def dquote_def)
  note t = extra_params_tokens [of undefined undefined, THEN conjunct2, THEN conjunct2, rule_format]
  from t [OF a] q have 1: "quoted_alt ''--other=x'' = None \<and>
      take 9 ''--other=x'' = takeWhile (\<lambda>c. \<not> is_space c) ''--other=x''"
    by blast
  from t [OF b] nb have 2: "\<exists>pre body.
      take 8 (''-f='' @ [dquote] @ ''a b'' @ [dquote] @ '' x'') = pre @ [dquote] @ body @ [dquote] \<and>
       (\<forall>c\<in>set pre. \<not> is_space c) \<and> body \<noteq> [] \<and> (\<forall>c\<in>set body. \<not> is_line_terminator c)"
    by blast
  from a b 1 2 show ?thesis
    by blast
qed

subsection \<open>A string of spaces as extra parameters\<close>

lemma match_here_space: "is_space c \<Longrightarrow> match_here (c # cs) = None"
  by (auto simp: match_here_def bare_alt_def is_space_def dquote_def)

lemma match_all_spaces: "\<forall>c\<in>set s. is_space c \<Longrightarrow> match_all s = []"
  by (induction s) (simp_all add: match_here_space)

lemma extra_tokens_spaces:
  assumes "s \<noteq> []" and "\<forall>c\<in>set s. is_space c"
  shows "extra_tokens (Some s) = Inl TypeError"
  using assms by (simp add: extra_tokens_def str_match_def match_all_spaces)

text \<open>
  C10. When the extra parameters are a string that is not empty and holds only
  whitespace, the pattern matches nowhere, \<^verbatim>\<open>match\<close> returns \<^verbatim>\<open>null\<close>, and each of
  \<^verbatim>\<open>build\<close>, \<^verbatim>\<open>test\<close>, \<^verbatim>\<open>publish\<close> and \<^verbatim>\<open>runTool\<close> ends with a \<^verbatim>\<open>TypeError\<close> in a
  world it has not touched: nothing is logged and no process is started. The string is
  not taken as "no extra arguments".
\<close>

theorem whitespace_only_extra_parameters:
  assumes "s \<noteq> []" and "\<forall>c\<in>set s. is_space c"
  shows "str_match s = None
    \<and> build d cl w project parameters (Some s) = (w, Inl TypeError)
    \<and> test d cl w project watch parameters (Some s) = (w, Inl TypeError)
    \<and> publish d cl w project parameters publishProfile (Some s) = (w, Inl TypeError)
    \<and> runTool d cl w tool positionalParameters parameters (Some s) = (w, Inl TypeError)"
proof (intro conjI)
  show "str_match s = None"
    using assms by (simp add: str_match_def match_all_spaces)
  show "build d cl w project parameters (Some s) = (w, Inl TypeError)"
    by (simp add: build_def build_params_def extra_tokens_spaces [OF assms])
  show "test d cl w project watch parameters (Some s) = (w, Inl TypeError)"
    by (simp add: test_def test_params_def extra_tokens_spaces [OF assms])
  show "publish d cl w project parameters publishProfile (Some s) = (w, Inl TypeError)"
    by (simp add: publish_def publish_params_def extra_tokens_spaces [OF assms])
  show "runTool d cl w tool positionalParameters parameters (Some s) = (w, Inl TypeError)"
    by (simp add: runTool_def runTool_params_def extra_tokens_spaces [OF assms])
qed

theorem whitespace_only_extra_parameters_witness:
  "str_match ''  '' = None
   \<and> snd (build sample_deps (sample_client v6_0_100) (sample_world 0) ''proj'' None (Some ''  '')) = Inl TypeError
   \<and> events (fst (build sample_deps (sample_client v6_0_100) (sample_world 0) ''proj'' None (Some ''  ''))) = []
   \<and> snd (test sample_deps (sample_client v6_0_100) (sample_world 0) ''proj'' None None (Some ''  '')) = Inl TypeError
   \<and> snd (publish sample_deps (sample_client v6_0_100) (sample_world 0) ''proj'' None None (Some ''  '')) = Inl TypeError
   \<and> snd (runTool sample_deps (sample_client v6_0_100) (sample_world 0) ''tool'' None None (Some ''  '')) = Inl TypeError"
proof -
  have a: "''  '' \<noteq> []" by simp
  have b: "\<forall>c\<in>set ''  ''. is_space c" by (simp add: is_space_def)
  have e: "events (sample_world 0) = []" by (simp add: sample_world_def)
  from whitespace_only_extra_parameters [OF a b] e show ?thesis by simp
qed

subsection \<open>What the three helpers do to the world\<close>

lemma logAndExecute_world:
  "fst (logAndExecute cl w ps) =
     w\<lparr>events := events w @
        [ConsoleLog (''Executing Command: '' @ command_line cl (map (replace_var (env w)) ps)),
         SpawnSync (command (cliCommand cl)) (map (replace_var (env w)) ps) (working_dir cl w) Inherit]\<rparr>"
  by (simp add: logAndExecute_def Let_def console_log_def emit_def)

lemma logAndExecute_result:
  "snd (logAndExecute cl w ps) =
     (if status (spawnSync_result w (command (cliCommand cl)) (map (replace_var (env w)) ps) (working_dir cl w)) \<noteq> Some 0
      then Inl (Error (''dotnet execution returned status code '' @
             show_status (status (spawnSync_result w (command (cliCommand cl))
                (map (replace_var (env w)) ps) (working_dir cl w)))))
      else Inr ())"
  by (simp add: logAndExecute_def Let_def)

lemma logAndExecute_frame:
  "env (fst (logAndExecute cl w ps)) = env w"
  "spawnSync_result (fst (logAndExecute cl w ps)) = spawnSync_result w"
  "process_cwd (fst (logAndExecute cl w ps)) = process_cwd w"
  by (simp_all add: logAndExecute_world)

lemma spawnAndGetOutput_world:
  "fst (spawnAndGetOutput cl w ps) =
     w\<lparr>events := events w @
        [SpawnSync (command (cliCommand cl)) (map (replace_var (env w)) ps) (working_dir cl w) Pipe]\<rparr>"
  by (simp add: spawnAndGetOutput_def Let_def emit_def)

lemma spawnAndGetOutput_result:
  "snd (spawnAndGetOutput cl w ps) =
     (let res = spawnSync_result w (command (cliCommand cl)) (map (replace_var (env w)) ps) (working_dir cl w)
      in if status res \<noteq> Some 0
         then Inl (Error (''dotnet execution returned status code '' @ show_status (status res)
                @ [CHR '' '', CHR 0x0A, CHR '' ''] @ stderr res))
         else Inr (stdout res))"
  by (simp add: spawnAndGetOutput_def Let_def)

lemma logAndSpawn_world:
  "fst (logAndSpawn cl w ps) =
     w\<lparr>events := events w @
        [ConsoleLog (''Executing Command: '' @ command_line cl ps),
         Spawn (command (cliCommand cl)) ps (working_dir cl w) Inherit]\<rparr>"
  by (simp add: logAndSpawn_def Let_def console_log_def emit_def)

lemma logAndSpawn_result:
  "snd (logAndSpawn cl w ps) = ChildProcess (command (cliCommand cl)) ps (working_dir cl w)"
  by (simp add: logAndSpawn_def Let_def)

lemma dispatched_append: "dispatched (xs @ ys) = dispatched xs @ dispatched ys"
  by (induction xs rule: dispatched.induct) simp_all

lemma sample_client_simps:
  "command (cliCommand (sample_client v)) = ''dotnet''"
  "version (cliCommand (sample_client v)) = v"
  "working_dir (sample_client v) (sample_world st) = ''/work''"
  by (simp_all add: sample_client_def sample_world_def working_dir_def)

lemma sample_world_simps:
  "env (sample_world st) = [''HOME'' \<mapsto> ''/home/user'']"
  "events (sample_world st) = []"
  "status (spawnSync_result (sample_world st) cmd args dir) = Some st"
  "stdout (spawnSync_result (sample_world st) cmd args dir) = ''out''"
  "stderr (spawnSync_result (sample_world st) cmd args dir) = ''err''"
  by (simp_all add: sample_world_def)

lemma sample_deps_simps:
  "getSpawnParameterArray sample_deps = spec_getSpawnParameterArray"
  "swapKeysUsingMap sample_deps = spec_swapKeysUsingMap"
  "publishKeyMap sample_deps = [(''noBuild'', ''no-build'')]"
  "testKeyMap sample_deps = [(''noBuild'', ''no-build'')]"
  "runKeyMap sample_deps = [(''noBuild'', ''no-build'')]"
  by (simp_all add: sample_deps_def)

subsection \<open>The substitution of environment variables\<close>

text \<open>
  Where \<^const>\<open>replace_var\<close> is applied it does what is asked of it: a token without
  the pattern is left alone, and in a token with the pattern the leftmost
  \<^verbatim>\<open>$NAME\<close> gives way to the value of \<^verbatim>\<open>NAME\<close>, or to nothing when it is not set.
\<close>

lemma replace_var_unchanged: "\<not> has_var s \<Longrightarrow> replace_var ev s = s"
  by (induction s) auto

lemma dollar_not_word: "\<not> is_word (CHR ''$'')"
  by (simp add: is_word_def)

lemma takeWhile_word_before_dollar:
  "takeWhile is_word (cs @ CHR ''$'' # t) \<noteq> [] \<longleftrightarrow> takeWhile is_word cs \<noteq> []"
  by (cases cs) (simp_all add: dollar_not_word)

lemma takeWhile_name:
  "\<forall>c\<in>set name. is_word c \<Longrightarrow> rest = [] \<or> \<not> is_word (hd rest) \<Longrightarrow>
   takeWhile is_word (name @ rest) = name \<and> dropWhile is_word (name @ rest) = rest"
  by (induction name) (auto simp: takeWhile_eq_Nil_iff dropWhile_eq_self_iff)

lemma replace_var_first:
  assumes "\<not> has_var pre" and "name \<noteq> []" and "\<forall>c\<in>set name. is_word c"
    and "rest = [] \<or> \<not> is_word (hd rest)"
  shows "replace_var ev (pre @ CHR ''$'' # name @ rest)
           = pre @ (case ev name of None \<Rightarrow> [] | Some v \<Rightarrow> v) @ rest"
  using assms(1)
proof (induction pre)
  case Nil
  from takeWhile_name [OF assms(3,4)] assms(2) show ?case by simp
next
  case (Cons c cs)
  then have "\<not> (c = CHR ''$'' \<and> takeWhile is_word cs \<noteq> [])" and "\<not> has_var cs"
    by simp_all
  with Cons.IH show ?case
    by (auto simp: takeWhile_word_before_dollar)
qed

lemma takeWhile_word_snoc:
  "\<not> is_word c \<Longrightarrow> takeWhile is_word (s @ [c]) = takeWhile is_word s"
  by (induction s) simp_all

lemma dropWhile_word_snoc:
  "\<not> is_word c \<Longrightarrow> dropWhile is_word (s @ [c]) = dropWhile is_word s @ [c]"
  by (induction s) simp_all

lemma replace_var_snoc:
  "\<not> is_word c \<Longrightarrow> c \<noteq> CHR ''$'' \<Longrightarrow> replace_var ev (s @ [c]) = replace_var ev s @ [c]"
  by (induction s) (simp_all add: takeWhile_word_snoc dropWhile_word_snoc)

lemma replace_var_quoted:
  "replace_var ev ([dquote] @ s @ [dquote]) = [dquote] @ replace_var ev s @ [dquote]"
proof -
  have "\<not> is_word dquote" "dquote \<noteq> CHR ''$''"
    by (simp_all add: is_word_def dquote_def)
  then show ?thesis
    by (simp add: replace_var_snoc)
qed

text \<open>
  C3. The substitution is asked for in all three ways to dispatch. The two
  blocking helpers substitute; \<^verbatim>\<open>logAndSpawn\<close> hands the tokens to \<^verbatim>\<open>spawn\<close> as they
  are. With \<^verbatim>\<open>HOME=/home/user\<close>, \<^verbatim>\<open>run\<close> on the project \<^verbatim>\<open>$HOME/project\<close> starts the
  process with the token \<^verbatim>\<open>$HOME/project\<close>, where \<^verbatim>\<open>logAndExecute\<close> and
  \<^verbatim>\<open>spawnAndGetOutput\<close> on the same tokens start it with \<^verbatim>\<open>/home/user/project\<close>.
\<close>

theorem spawn_without_substitution:
  "dispatched (events (fst (run sample_deps (sample_client v6_0_100) (sample_world 0) ''$HOME/project'' None None)))
     = [[''run'', ''--project'', ''$HOME/project'']]
   \<and> dispatched (events (fst (logAndExecute (sample_client v6_0_100) (sample_world 0)
         [''run'', ''--project'', ''$HOME/project''])))
     = [[''run'', ''--project'', ''/home/user/project'']]
   \<and> dispatched (events (fst (spawnAndGetOutput (sample_client v6_0_100) (sample_world 0)
         [''run'', ''--project'', ''$HOME/project''])))
     = [[''run'', ''--project'', ''/home/user/project'']]"
  by (simp add: run_def run_params_def truthy_bool_def mapped_options_def
      logAndSpawn_world logAndExecute_world spawnAndGetOutput_world sample_world_def is_word_def)

subsection \<open>Exit status\<close>

lemma show_status_1: "show_status (Some 1) = ''1''"
  by code_simp

text \<open>
  C4. When the process of a blocking call exits with a status other than 0, the call
  raises an \<^verbatim>\<open>Error\<close> whose message holds the status and, when the output is captured,
  the contents of the standard error stream after it. \<^verbatim>\<open>logAndSpawn\<close> in the same world
  writes the log line, starts the process with \<^verbatim>\<open>spawn\<close> and returns the handle of that
  process, whatever the processes of the world exit with; so does \<^verbatim>\<open>test\<close> when it
  watches, where the blocking \<^verbatim>\<open>test\<close> raises. With status 0 \<^verbatim>\<open>logAndExecute\<close> returns nothing and
  \<^verbatim>\<open>spawnAndGetOutput\<close> returns the captured standard output.
\<close>

theorem exit_status_handling:
  "(status (spawnSync_result w (command (cliCommand cl)) (map (replace_var (env w)) ps) (working_dir cl w)) = st
      \<and> st \<noteq> Some 0 \<longrightarrow>
        snd (logAndExecute cl w ps)
          = Inl (Error (''dotnet execution returned status code '' @ show_status st))
      \<and> snd (spawnAndGetOutput cl w ps)
          = Inl (Error (''dotnet execution returned status code '' @ show_status st
               @ [CHR '' '', CHR 0x0A, CHR '' '']
               @ stderr (spawnSync_result w (command (cliCommand cl)) (map (replace_var (env w)) ps) (working_dir cl w)))))
   \<and> snd (test d cl w project None None None)
        = (if status (spawnSync_result w (command (cliCommand cl))
                (map (replace_var (env w)) [''test'', project]) (working_dir cl w)) \<noteq> Some 0
           then Inl (Error (''dotnet execution returned status code '' @
                  show_status (status (spawnSync_result w (command (cliCommand cl))
                    (map (replace_var (env w)) [''test'', project]) (working_dir cl w)))))
           else Inr None)
   \<and> events (fst (logAndSpawn cl w ps))
        = events w @ [ConsoleLog (''Executing Command: '' @ command_line cl ps),
                      Spawn (command (cliCommand cl)) ps (working_dir cl w) Inherit]
   \<and> snd (logAndSpawn cl w ps) = ChildProcess (command (cliCommand cl)) ps (working_dir cl w)
   \<and> events (fst (test d cl w project (Some True) None None))
        = events w @ [ConsoleLog (''Executing Command: '' @
                        command_line cl [''watch'', ''--project'', project, ''test'']),
                      Spawn (command (cliCommand cl)) [''watch'', ''--project'', project, ''test'']
                        (working_dir cl w) Inherit]
   \<and> snd (test d cl w project (Some True) None None)
        = Inr (Some (ChildProcess (command (cliCommand cl)) [''watch'', ''--project'', project, ''test'']
                 (working_dir cl w)))
   \<and> (status (spawnSync_result w (command (cliCommand cl)) (map (replace_var (env w)) ps) (working_dir cl w)) = Some 0
      \<longrightarrow> snd (logAndExecute cl w ps) = Inr ()
        \<and> snd (spawnAndGetOutput cl w ps)
          = Inr (stdout (spawnSync_result w (command (cliCommand cl)) (map (replace_var (env w)) ps) (working_dir cl w))))"
proof (intro conjI impI)
  assume "status (spawnSync_result w (command (cliCommand cl)) (map (replace_var (env w)) ps) (working_dir cl w)) = st
      \<and> st \<noteq> Some 0"
  then show "snd (logAndExecute cl w ps)
          = Inl (Error (''dotnet execution returned status code '' @ show_status st))"
    by (simp add: logAndExecute_result)
next
  assume "status (spawnSync_result w (command (cliCommand cl)) (map (replace_var (env w)) ps) (working_dir cl w)) = st
      \<and> st \<noteq> Some 0"
  then show "snd (spawnAndGetOutput cl w ps)
          = Inl (Error (''dotnet execution returned status code '' @ show_status st
               @ [CHR '' '', CHR 0x0A, CHR '' '']
               @ stderr (spawnSync_result w (command (cliCommand cl)) (map (replace_var (env w)) ps) (working_dir cl w))))"
    by (simp add: spawnAndGetOutput_result Let_def)
next
  show "snd (test d cl w project None None None)
          = (if status (spawnSync_result w (command (cliCommand cl))
                  (map (replace_var (env w)) [''test'', project]) (working_dir cl w)) \<noteq> Some 0
             then Inl (Error (''dotnet execution returned status code '' @
                    show_status (status (spawnSync_result w (command (cliCommand cl))
                      (map (replace_var (env w)) [''test'', project]) (working_dir cl w)))))
             else Inr None)"
    by (simp add: test_def test_params_def extra_tokens_def mapped_options_def truthy_bool_def
        logAndExecute_def Let_def)
next
  show "events (fst (logAndSpawn cl w ps))
        = events w @ [ConsoleLog (''Executing Command: '' @ command_line cl ps),
                      Spawn (command (cliCommand cl)) ps (working_dir cl w) Inherit]"
    by (simp add: logAndSpawn_world)
next
  show "snd (logAndSpawn cl w ps) = ChildProcess (command (cliCommand cl)) ps (working_dir cl w)"
    by (rule logAndSpawn_result)
next
  show "events (fst (test d cl w project (Some True) None None))
        = events w @ [ConsoleLog (''Executing Command: '' @
                        command_line cl [''watch'', ''--project'', project, ''test'']),
                      Spawn (command (cliCommand cl)) [''watch'', ''--project'', project, ''test'']
                        (working_dir cl w) Inherit]"
    by (simp add: test_def test_params_def extra_tokens_def mapped_options_def truthy_bool_def
        logAndSpawn_def Let_def console_log_def emit_def)
next
  show "snd (test d cl w project (Some True) None None)
        = Inr (Some (ChildProcess (command (cliCommand cl)) [''watch'', ''--project'', project, ''test'']
                 (working_dir cl w)))"
    by (simp add: test_def test_params_def extra_tokens_def mapped_options_def truthy_bool_def
        logAndSpawn_def Let_def)
next
  assume "status (spawnSync_result w (command (cliCommand cl)) (map (replace_var (env w)) ps) (working_dir cl w)) = Some 0"
  then show "snd (logAndExecute cl w ps) = Inr ()"
    by (simp add: logAndExecute_result)
next
  assume "status (spawnSync_result w (command (cliCommand cl)) (map (replace_var (env w)) ps) (working_dir cl w)) = Some 0"
  then show "snd (spawnAndGetOutput cl w ps)
          = Inr (stdout (spawnSync_result w (command (cliCommand cl)) (map (replace_var (env w)) ps) (working_dir cl w)))"
    by (simp add: spawnAndGetOutput_result Let_def)
qed

theorem exit_status_handling_witness:
  "snd (logAndExecute (sample_client v6_0_100) (sample_world 1) [''build'', ''proj''])
     = Inl (Error ''dotnet execution returned status code 1'')
   \<and> snd (spawnAndGetOutput (sample_client v6_0_100) (sample_world 1) [''build'', ''proj''])
     = Inl (Error (''dotnet execution returned status code 1'' @ [CHR '' '', CHR 0x0A, CHR '' ''] @ ''err''))
   \<and> dispatched (events (fst (logAndSpawn (sample_client v6_0_100) (sample_world 1) [''build'', ''proj''])))
       = [[''build'', ''proj'']]
   \<and> snd (logAndSpawn (sample_client v6_0_100) (sample_world 1) [''build'', ''proj''])
       = ChildProcess ''dotnet'' [''build'', ''proj''] ''/work''
   \<and> snd (test sample_deps (sample_client v6_0_100) (sample_world 1) ''proj'' (Some True) None None)
       = Inr (Some (ChildProcess ''dotnet'' [''watch'', ''--project'', ''proj'', ''test''] ''/work''))
   \<and> snd (test sample_deps (sample_client v6_0_100) (sample_world 1) ''proj'' None None None)
       = Inl (Error ''dotnet execution returned status code 1'')
   \<and> snd (logAndExecute (sample_client v6_0_100) (sample_world 0) [''build'', ''proj'']) = Inr ()
   \<and> snd (spawnAndGetOutput (sample_client v6_0_100) (sample_world 0) [''build'', ''proj'']) = Inr ''out''"
proof -
  have s1: "status (spawnSync_result (sample_world 1) (command (cliCommand (sample_client v6_0_100)))
        (map (replace_var (env (sample_world 1))) [''build'', ''proj''])
        (working_dir (sample_client v6_0_100) (sample_world 1))) = Some 1 \<and> Some (1::int) \<noteq> Some 0"
    by (simp add: sample_world_def)
  have s0: "status (spawnSync_result (sample_world 0) (command (cliCommand (sample_client v6_0_100)))
        (map (replace_var (env (sample_world 0))) [''build'', ''proj''])
        (working_dir (sample_client v6_0_100) (sample_world 0))) = Some 0"
    by (simp add: sample_world_def)
  have o: "stdout (spawnSync_result (sample_world 0) (command (cliCommand (sample_client v6_0_100)))
        (map (replace_var (env (sample_world 0))) [''build'', ''proj''])
        (working_dir (sample_client v6_0_100) (sample_world 0))) = ''out''"
    "stderr (spawnSync_result (sample_world 1) (command (cliCommand (sample_client v6_0_100)))
        (map (replace_var (env (sample_world 1))) [''build'', ''proj''])
        (working_dir (sample_client v6_0_100) (sample_world 1))) = ''err''"
    by (simp_all add: sample_world_def)
  have wd: "working_dir (sample_client v6_0_100) (sample_world 1) = ''/work''"
    "command (cliCommand (sample_client v6_0_100)) = ''dotnet''"
    by (simp_all add: working_dir_def sample_client_def sample_world_def)
  note t1 = exit_status_handling [of "sample_world 1" "sample_client v6_0_100" "[''build'', ''proj'']" "Some 1"
      sample_deps "''proj''"]
  note t0 = exit_status_handling [of "sample_world 0" "sample_client v6_0_100" "[''build'', ''proj'']" "Some 1"
      sample_deps "''proj''"]
  from t1 s1 have a: "snd (logAndExecute (sample_client v6_0_100) (sample_world 1) [''build'', ''proj''])
     = Inl (Error (''dotnet execution returned status code '' @ show_status (Some 1)))"
    by blast
  from t1 s1 have b: "snd (spawnAndGetOutput (sample_client v6_0_100) (sample_world 1) [''build'', ''proj''])
     = Inl (Error (''dotnet execution returned status code '' @ show_status (Some 1)
          @ [CHR '' '', CHR 0x0A, CHR '' ''] @
          stderr (spawnSync_result (sample_world 1) (command (cliCommand (sample_client v6_0_100)))
        (map (replace_var (env (sample_world 1))) [''build'', ''proj''])
        (working_dir (sample_client v6_0_100) (sample_world 1)))))"
    by blast
  from t1 have c: "snd (logAndSpawn (sample_client v6_0_100) (sample_world 1) [''build'', ''proj''])
     = ChildProcess (command (cliCommand (sample_client v6_0_100))) [''build'', ''proj'']
         (working_dir (sample_client v6_0_100) (sample_world 1))"
    by (elim conjE)
  from t1 have c2: "events (fst (logAndSpawn (sample_client v6_0_100) (sample_world 1) [''build'', ''proj'']))
        = events (sample_world 1) @
            [ConsoleLog (''Executing Command: '' @ command_line (sample_client v6_0_100) [''build'', ''proj'']),
             Spawn (command (cliCommand (sample_client v6_0_100))) [''build'', ''proj'']
               (working_dir (sample_client v6_0_100) (sample_world 1)) Inherit]"
    by (elim conjE)
  from t1 have c3: "snd (test sample_deps (sample_client v6_0_100) (sample_world 1) ''proj'' (Some True) None None)
        = Inr (Some (ChildProcess (command (cliCommand (sample_client v6_0_100)))
                 [''watch'', ''--project'', ''proj'', ''test'']
                 (working_dir (sample_client v6_0_100) (sample_world 1))))"
    by (elim conjE)
  from t1 have c4: "snd (test sample_deps (sample_client v6_0_100) (sample_world 1) ''proj'' None None None)
        = (if status (spawnSync_result (sample_world 1) (command (cliCommand (sample_client v6_0_100)))
                (map (replace_var (env (sample_world 1))) [''test'', ''proj''])
                (working_dir (sample_client v6_0_100) (sample_world 1))) \<noteq> Some 0
           then Inl (Error (''dotnet execution returned status code '' @
                  show_status (status (spawnSync_result (sample_world 1) (command (cliCommand (sample_client v6_0_100)))
                    (map (replace_var (env (sample_world 1))) [''test'', ''proj''])
                    (working_dir (sample_client v6_0_100) (sample_world 1))))))
           else Inr None)"
    by (elim conjE)
  from t0 s0 have d: "snd (logAndExecute (sample_client v6_0_100) (sample_world 0) [''build'', ''proj'']) = Inr ()"
    by blast
  from t0 s0 have e: "snd (spawnAndGetOutput (sample_client v6_0_100) (sample_world 0) [''build'', ''proj''])
     = Inr (stdout (spawnSync_result (sample_world 0) (command (cliCommand (sample_client v6_0_100)))
        (map (replace_var (env (sample_world 0))) [''build'', ''proj''])
        (working_dir (sample_client v6_0_100) (sample_world 0))))"
    by blast
  from a b [unfolded o] c c2 c3 c4 d e [unfolded o] show ?thesis
    by (simp add: show_status_1 wd sample_world_simps)
qed

subsection \<open>The log line\<close>

text \<open>
  C6, as the source has it. \<^verbatim>\<open>logAndExecute\<close> and \<^verbatim>\<open>logAndSpawn\<close> write the line
  \<^verbatim>\<open>Executing Command:\<close> with the command and every token the process receives between
  double quotes, and start the process right after it. \<^verbatim>\<open>spawnAndGetOutput\<close>, the helper that captures the
  output, starts the process and writes nothing.
\<close>

theorem log_line_before_dispatch:
  "(\<exists>args. events (fst (logAndExecute cl w ps)) =
       events w @
         [ConsoleLog (''Executing Command: '' @ command (cliCommand cl) @ '' '' @ [dquote]
              @ join ([dquote] @ '' '' @ [dquote]) args @ [dquote]),
          SpawnSync (command (cliCommand cl)) args (working_dir cl w) Inherit])
   \<and> (\<exists>args. events (fst (logAndSpawn cl w ps)) =
       events w @
         [ConsoleLog (''Executing Command: '' @ command (cliCommand cl) @ '' '' @ [dquote]
              @ join ([dquote] @ '' '' @ [dquote]) args @ [dquote]),
          Spawn (command (cliCommand cl)) args (working_dir cl w) Inherit])
   \<and> (\<exists>args. events (fst (spawnAndGetOutput cl w ps)) =
       events w @ [SpawnSync (command (cliCommand cl)) args (working_dir cl w) Pipe])"
proof (intro conjI)
  have "events (fst (logAndExecute cl w ps)) =
       events w @
         [ConsoleLog (''Executing Command: '' @ command (cliCommand cl) @ '' '' @ [dquote]
              @ join ([dquote] @ '' '' @ [dquote]) (map (replace_var (env w)) ps) @ [dquote]),
          SpawnSync (command (cliCommand cl)) (map (replace_var (env w)) ps) (working_dir cl w) Inherit]"
    by (simp add: logAndExecute_world command_line_def)
  then show "\<exists>args. events (fst (logAndExecute cl w ps)) =
       events w @
         [ConsoleLog (''Executing Command: '' @ command (cliCommand cl) @ '' '' @ [dquote]
              @ join ([dquote] @ '' '' @ [dquote]) args @ [dquote]),
          SpawnSync (command (cliCommand cl)) args (working_dir cl w) Inherit]"
    by blast
next
  have "events (fst (logAndSpawn cl w ps)) =
       events w @
         [ConsoleLog (''Executing Command: '' @ command (cliCommand cl) @ '' '' @ [dquote]
              @ join ([dquote] @ '' '' @ [dquote]) ps @ [dquote]),
          Spawn (command (cliCommand cl)) ps (working_dir cl w) Inherit]"
    by (simp add: logAndSpawn_world command_line_def)
  then show "\<exists>args. events (fst (logAndSpawn cl w ps)) =
       events w @
         [ConsoleLog (''Executing Command: '' @ command (cliCommand cl) @ '' '' @ [dquote]
              @ join ([dquote] @ '' '' @ [dquote]) args @ [dquote]),
          Spawn (command (cliCommand cl)) args (working_dir cl w) Inherit]"
    by blast
next
  have "events (fst (spawnAndGetOutput cl w ps)) =
       events w @ [SpawnSync (command (cliCommand cl)) (map (replace_var (env w)) ps) (working_dir cl w) Pipe]"
    by (simp add: spawnAndGetOutput_world)
  then show "\<exists>args. events (fst (spawnAndGetOutput cl w ps)) =
       events w @ [SpawnSync (command (cliCommand cl)) args (working_dir cl w) Pipe]"
    by blast
qed

theorem log_line_before_dispatch_witness:
  "(\<exists>args. events (fst (logAndExecute (sample_client v6_0_100) (sample_world 0) [''build'', ''proj''])) =
       [ConsoleLog (''Executing Command: dotnet '' @ [dquote] @ join ([dquote] @ '' '' @ [dquote]) args @ [dquote]),
        SpawnSync ''dotnet'' args ''/work'' Inherit])
   \<and> (\<exists>args. events (fst (logAndSpawn (sample_client v6_0_100) (sample_world 0) [''run'', ''--project'', ''proj''])) =
       [ConsoleLog (''Executing Command: dotnet '' @ [dquote] @ join ([dquote] @ '' '' @ [dquote]) args @ [dquote]),
        Spawn ''dotnet'' args ''/work'' Inherit])
   \<and> (\<exists>args. events (fst (spawnAndGetOutput (sample_client v6_0_100) (sample_world 0) [''new'', ''--list''])) =
       [SpawnSync ''dotnet'' args ''/work'' Pipe])"
  using log_line_before_dispatch [of "sample_client v6_0_100" "sample_world 0" "[''build'', ''proj'']",
      THEN conjunct1]
    log_line_before_dispatch [of "sample_client v6_0_100" "sample_world 0" "[''run'', ''--project'', ''proj'']",
      THEN conjunct2, THEN conjunct1]
    log_line_before_dispatch [of "sample_client v6_0_100" "sample_world 0" "[''new'', ''--list'']",
      THEN conjunct2, THEN conjunct2]
  by (simp add: sample_client_simps sample_world_simps)

text \<open>
  C6 as it is stated, with a log line in all three modes, fails for the captured mode:
  listing the templates leaves one event, the call of \<^verbatim>\<open>spawnSync\<close>.
\<close>

theorem no_log_when_output_is_captured:
  "\<not> (\<exists>line. ConsoleLog line \<in> set (events (fst (spawnAndGetOutput (sample_client v6_0_100) (sample_world 0)
        [''new'', ''--list'']))))
   \<and> events (fst (listInstalledTemplates sample_deps (sample_client v6_0_100) (sample_world 0) None))
       = [SpawnSync ''dotnet'' [''new'', ''--list''] ''/work'' Pipe]"
  by (simp add: spawnAndGetOutput_world listInstalledTemplates_def spawnAndGetOutput_def Let_def emit_def
      listInstalledTemplates_params_def semver_lt_def semver_gte_def semver_compare_def compareMain_def
      comparePre_def v6_0_100_def v7_0_100_def if_given_def opt_search_def opt_language_def
      sample_world_def sample_client_def working_dir_def)

subsection \<open>The positional prefix of run and test\<close>

text \<open>
  C5, as the source has it. With the watch flag the argument list of \<^verbatim>\<open>run\<close> starts
  with \<^verbatim>\<open>watch --project <project> run\<close> and the one of \<^verbatim>\<open>test\<close> with
  \<^verbatim>\<open>watch --project <project> test\<close>. Without it \<^verbatim>\<open>test\<close> starts with
  \<^verbatim>\<open>test <project>\<close> and \<^verbatim>\<open>run\<close> with \<^verbatim>\<open>run --project <project>\<close>. The mapped options
  follow the prefix, and for \<^verbatim>\<open>test\<close> the tokens of the extra parameters follow those.
\<close>

theorem watch_prefix:
  "run_params d project watch parameters =
     (if watch = Some True then [''watch'', ''--project'', project, ''run'']
      else [''run'', ''--project'', project]) @ mapped_options d (runKeyMap d) parameters
   \<and> (\<forall>matches. extra_tokens extraParameters = Inr matches \<longrightarrow>
        test_params d project watch parameters extraParameters
          = Inr ((if watch = Some True then [''watch'', ''--project'', project, ''test'']
                  else [''test'', project])
                 @ mapped_options d (testKeyMap d) parameters @ matches))
   \<and> (\<exists>line io. events (fst (run d cl w project watch parameters)) =
         events w @ [ConsoleLog line,
                     Spawn (command (cliCommand cl)) (run_params d project watch parameters) (working_dir cl w) io])"
proof (intro conjI allI impI)
  show "run_params d project watch parameters =
     (if watch = Some True then [''watch'', ''--project'', project, ''run'']
      else [''run'', ''--project'', project]) @ mapped_options d (runKeyMap d) parameters"
    by (simp add: run_params_def truthy_bool_def)
next
  fix matches
  assume m: "extra_tokens extraParameters = Inr matches"
  then show "test_params d project watch parameters extraParameters
          = Inr ((if watch = Some True then [''watch'', ''--project'', project, ''test'']
                  else [''test'', project])
                 @ mapped_options d (testKeyMap d) parameters @ matches)"
    by (simp add: test_params_def truthy_bool_def)
next
  have "events (fst (run d cl w project watch parameters)) =
         events w @ [ConsoleLog (''Executing Command: '' @ command_line cl (run_params d project watch parameters)),
                     Spawn (command (cliCommand cl)) (run_params d project watch parameters) (working_dir cl w) Inherit]"
    by (simp add: run_def logAndSpawn_world)
  then show "\<exists>line io. events (fst (run d cl w project watch parameters)) =
         events w @ [ConsoleLog line,
                     Spawn (command (cliCommand cl)) (run_params d project watch parameters) (working_dir cl w) io]"
    by blast
qed

theorem watch_prefix_witness:
  "extra_tokens None = Inr []
   \<and> run_params sample_deps ''proj'' (Some True) None = [''watch'', ''--project'', ''proj'', ''run'']
   \<and> run_params sample_deps ''proj'' None None = [''run'', ''--project'', ''proj'']
   \<and> test_params sample_deps ''proj'' (Some True) None None = Inr [''watch'', ''--project'', ''proj'', ''test'']
   \<and> test_params sample_deps ''proj'' None None None = Inr [''test'', ''proj'']"
proof -
  have e: "extra_tokens None = Inr []"
    by (simp add: extra_tokens_def)
  note t = watch_prefix [of sample_deps "''proj''" _ None None "sample_client v6_0_100" "sample_world 0"]
  note r = t [of "Some True", THEN conjunct1] t [of None, THEN conjunct1]
  note w = t [of "Some True", THEN conjunct2, THEN conjunct1, rule_format, OF e]
  note n = t [of None, THEN conjunct2, THEN conjunct1, rule_format, OF e]
  from e r w n show ?thesis
    by (simp add: mapped_options_def)
qed

text \<open>
  C5 as it is stated gives \<^verbatim>\<open>run <project>\<close> for \<^verbatim>\<open>run\<close> without the watch flag. The
  source puts \<^verbatim>\<open>--project\<close> between the two.
\<close>

theorem run_without_watch_has_project_flag:
  "\<not> (\<exists>rest. run_params sample_deps ''proj'' (Some False) None = [''run'', ''proj''] @ rest)
   \<and> run_params sample_deps ''proj'' (Some False) None = [''run'', ''--project'', ''proj'']
   \<and> dispatched (events (fst (run sample_deps (sample_client v6_0_100) (sample_world 0) ''proj'' (Some False) None)))
        = [[''run'', ''--project'', ''proj'']]"
  by (simp add: run_def run_params_def truthy_bool_def mapped_options_def logAndSpawn_world sample_world_def)

subsection \<open>The argument list of publish\<close>

text \<open>
  C8. The argument list of \<^verbatim>\<open>publish\<close> is \<^verbatim>\<open>publish\<close>, the project between double
  quotes, the mapped options, the token \<^verbatim>\<open>-p:PublishProfile=<name>\<close> when a profile name
  is given, and the tokens of the extra parameters, in this order. The project is still
  between double quotes in the token the process receives.
\<close>

theorem publish_argument_order:
  "(\<forall>matches. extra_tokens extraParameters = Inr matches \<longrightarrow>
      publish_params d project parameters publishProfile extraParameters
        = Inr ([''publish'', [dquote] @ project @ [dquote]]
               @ mapped_options d (publishKeyMap d) parameters
               @ (case publishProfile of None \<Rightarrow> []
                  | Some name \<Rightarrow> if name = [] then [] else [''-p:PublishProfile='' @ name])
               @ matches)
      \<and> dispatched (events (fst (publish d cl w project parameters publishProfile extraParameters)))
        = dispatched (events w) @
          [[''publish'', [dquote] @ replace_var (env w) project @ [dquote]]
           @ map (replace_var (env w))
               (mapped_options d (publishKeyMap d) parameters
                @ (case publishProfile of None \<Rightarrow> []
                   | Some name \<Rightarrow> if name = [] then [] else [''-p:PublishProfile='' @ name])
                @ matches)])"
proof (intro allI impI)
  fix matches
  assume m: "extra_tokens extraParameters = Inr matches"
  let ?profile = "case publishProfile of None \<Rightarrow> []
                  | Some name \<Rightarrow> if name = [] then [] else [''-p:PublishProfile='' @ name]"
  have pr: "(case if_given publishProfile of [] \<Rightarrow> [] | pp # ps \<Rightarrow> [''-p:PublishProfile='' @ pp]) = ?profile"
    by (simp add: if_given_def split: option.splits)
  have p: "publish_params d project parameters publishProfile extraParameters
        = Inr ([''publish'', [dquote] @ project @ [dquote]]
               @ mapped_options d (publishKeyMap d) parameters @ ?profile @ matches)"
    unfolding publish_params_def m pr by simp
  have q: "replace_var (env w) ([dquote] @ project @ [dquote]) = [dquote] @ replace_var (env w) project @ [dquote]"
    by (rule replace_var_quoted)
  have "dispatched (events (fst (publish d cl w project parameters publishProfile extraParameters)))
        = dispatched (events w) @
          [[''publish'', [dquote] @ replace_var (env w) project @ [dquote]]
           @ map (replace_var (env w))
               (mapped_options d (publishKeyMap d) parameters @ ?profile @ matches)]"
    unfolding publish_def p
    using q by (simp add: logAndExecute_world dispatched_append)
  with p show "publish_params d project parameters publishProfile extraParameters
        = Inr ([''publish'', [dquote] @ project @ [dquote]]
               @ mapped_options d (publishKeyMap d) parameters @ ?profile @ matches)
      \<and> dispatched (events (fst (publish d cl w project parameters publishProfile extraParameters)))
        = dispatched (events w) @
          [[''publish'', [dquote] @ replace_var (env w) project @ [dquote]]
           @ map (replace_var (env w))
               (mapped_options d (publishKeyMap d) parameters @ ?profile @ matches)]"
    by blast
qed

theorem publish_argument_order_witness:
  "extra_tokens (Some ''--x=1'') = Inr [''--x=1'']
   \<and> publish_params sample_deps ''proj'' (Some [(''noBuild'', JBool True)]) (Some ''prod'') (Some ''--x=1'')
       = Inr [''publish'', [dquote] @ ''proj'' @ [dquote], ''--no-build'', ''-p:PublishProfile=prod'', ''--x=1'']
   \<and> dispatched (events (fst (publish sample_deps (sample_client v6_0_100) (sample_world 0) ''$HOME''
         (Some [(''noBuild'', JBool True)]) (Some ''prod'') (Some ''--x=1''))))
       = [[''publish'', [dquote] @ ''/home/user'' @ [dquote], ''--no-build'', ''-p:PublishProfile=prod'', ''--x=1'']]"
proof -
  have e: "extra_tokens (Some ''--x=1'') = Inr [''--x=1'']"
    by (simp add: extra_tokens_def str_match_def match_here_def bare_alt_def is_space_def dquote_def)
  have m: "mapped_options sample_deps (publishKeyMap sample_deps) (Some [(''noBuild'', JBool True)]) = [''--no-build'']"
    by (simp add: mapped_options_def sample_deps_simps spec_getSpawnParameterArray_def spec_swapKeysUsingMap_def)
  note t = publish_argument_order [of "Some ''--x=1''" sample_deps _ "Some [(''noBuild'', JBool True)]"
      "Some ''prod''" "sample_client v6_0_100" "sample_world 0", rule_format, OF e]
  from e t [of "''proj''", THEN conjunct1] t [of "''$HOME''", THEN conjunct2] show ?thesis
    unfolding m by (simp add: sample_world_simps is_word_def)
qed

subsection \<open>The arguments of the template listing\<close>

lemma semver_gte_iff: "semver_gte a b = (\<not> semver_lt a b)"
  by (auto simp: semver_gte_def semver_lt_def)

lemma lt_6_lt_7: "semver_lt v v6_0_100 \<Longrightarrow> semver_lt v v7_0_100"
  by (auto simp: semver_lt_def semver_compare_def compareMain_def comparePre_def
      v6_0_100_def v7_0_100_def split: if_splits)

lemma semver_lt_release:
  "prerelease b = [] \<Longrightarrow> semver_lt a b =
     (major a < major b \<or> (major a = major b \<and> (minor a < minor b \<or> (minor a = minor b \<and>
        (patch a < patch b \<or> (patch a = patch b \<and> prerelease a \<noteq> []))))))"
  by (auto simp: semver_lt_def semver_compare_def compareMain_def comparePre_def split: if_splits)

text \<open>
  C2. With a search term, the arguments of the template listing follow the version of
  the SDK in three bands: below 6.0.100 the term comes before \<^verbatim>\<open>--list\<close>; from 6.0.100
  and below 7.0.100 it comes after \<^verbatim>\<open>--list\<close>; from 7.0.100 it comes after the word
  \<^verbatim>\<open>list\<close>. The bands are exclusive and cover every version. Version 5.0.100 with the
  term \<^verbatim>\<open>web\<close> gives \<^verbatim>\<open>new web --list\<close>, and version 7.0.100 gives \<^verbatim>\<open>new list web\<close>.
  These are the tokens handed to the process, each after the substitution of
  environment variables.
\<close>

theorem template_listing_arguments:
  "(s \<noteq> [] \<longrightarrow>
     listInstalledTemplates_params v (Some \<lparr>search = Some s, language = lang\<rparr>)
       = (if semver_lt v v6_0_100 then [''new'', s, ''--list'']
          else if semver_lt v v7_0_100 then [''new'', ''--list'', s]
          else [''new'', ''list'', s])
         @ (case lang of None \<Rightarrow> [] | Some l \<Rightarrow> if l = [] then [] else [''--language'', l]))
   \<and> (semver_lt v v6_0_100 \<longrightarrow> semver_lt v v7_0_100)
   \<and> semver_gte v v6_0_100 = (\<not> semver_lt v v6_0_100)
   \<and> semver_gte v v7_0_100 = (\<not> semver_lt v v7_0_100)
   \<and> listInstalledTemplates_params \<lparr>major = 5, minor = 0, patch = 100, prerelease = []\<rparr>
         (Some \<lparr>search = Some ''web'', language = None\<rparr>) = [''new'', ''web'', ''--list'']
   \<and> listInstalledTemplates_params \<lparr>major = 7, minor = 0, patch = 100, prerelease = []\<rparr>
         (Some \<lparr>search = Some ''web'', language = None\<rparr>) = [''new'', ''list'', ''web'']
   \<and> dispatched (events (fst (listInstalledTemplates d cl w opts)))
       = dispatched (events w) @
         [map (replace_var (env w)) (listInstalledTemplates_params (version (cliCommand cl)) opts)]"
proof (intro conjI impI)
  assume s: "s \<noteq> []"
  show "listInstalledTemplates_params v (Some \<lparr>search = Some s, language = lang\<rparr>)
       = (if semver_lt v v6_0_100 then [''new'', s, ''--list'']
          else if semver_lt v v7_0_100 then [''new'', ''--list'', s]
          else [''new'', ''list'', s])
         @ (case lang of None \<Rightarrow> [] | Some l \<Rightarrow> if l = [] then [] else [''--language'', l])"
    using s lt_6_lt_7 [of v]
    by (auto simp: listInstalledTemplates_params_def semver_gte_iff if_given_def opt_search_def
        opt_language_def split: option.splits)
next
  assume "semver_lt v v6_0_100"
  then show "semver_lt v v7_0_100" by (rule lt_6_lt_7)
next
  show "semver_gte v v6_0_100 = (\<not> semver_lt v v6_0_100)" by (rule semver_gte_iff)
next
  show "semver_gte v v7_0_100 = (\<not> semver_lt v v7_0_100)" by (rule semver_gte_iff)
next
  show "listInstalledTemplates_params \<lparr>major = 5, minor = 0, patch = 100, prerelease = []\<rparr>
         (Some \<lparr>search = Some ''web'', language = None\<rparr>) = [''new'', ''web'', ''--list'']"
    by (simp add: listInstalledTemplates_params_def semver_gte_iff if_given_def opt_search_def
        opt_language_def semver_lt_release v6_0_100_def v7_0_100_def)
next
  show "listInstalledTemplates_params \<lparr>major = 7, minor = 0, patch = 100, prerelease = []\<rparr>
         (Some \<lparr>search = Some ''web'', language = None\<rparr>) = [''new'', ''list'', ''web'']"
    by (simp add: listInstalledTemplates_params_def semver_gte_iff if_given_def opt_search_def
        opt_language_def semver_lt_release v6_0_100_def v7_0_100_def)
next
  show "dispatched (events (fst (listInstalledTemplates d cl w opts)))
       = dispatched (events w) @
         [map (replace_var (env w)) (listInstalledTemplates_params (version (cliCommand cl)) opts)]"
    by (simp add: listInstalledTemplates_def spawnAndGetOutput_def Let_def emit_def dispatched_append
        split: prod.splits sum.splits)
qed

theorem template_listing_arguments_witness:
  "''web'' \<noteq> [] \<and> semver_lt \<lparr>major = 6, minor = 0, patch = 100, prerelease = [Alphanumeric ''rc'', Numeric 1]\<rparr> v6_0_100
   \<and> listInstalledTemplates_params \<lparr>major = 6, minor = 0, patch = 100, prerelease = [Alphanumeric ''rc'', Numeric 1]\<rparr>
        (Some \<lparr>search = Some ''web'', language = Some ''C#''\<rparr>)
       = [''new'', ''web'', ''--list'', ''--language'', ''C#'']
   \<and> \<not> semver_lt \<lparr>major = 6, minor = 0, patch = 404, prerelease = []\<rparr> v6_0_100
   \<and> semver_lt \<lparr>major = 6, minor = 0, patch = 404, prerelease = []\<rparr> v7_0_100
   \<and> listInstalledTemplates_params \<lparr>major = 6, minor = 0, patch = 404, prerelease = []\<rparr>
        (Some \<lparr>search = Some ''web'', language = None\<rparr>)
       = [''new'', ''--list'', ''web'']"
proof -
  have a: "''web'' \<noteq> []" by simp
  have b: "semver_lt \<lparr>major = 6, minor = 0, patch = 100, prerelease = [Alphanumeric ''rc'', Numeric 1]\<rparr> v6_0_100"
    by (simp add: semver_lt_release v6_0_100_def)
  have c: "\<not> semver_lt \<lparr>major = 6, minor = 0, patch = 404, prerelease = []\<rparr> v6_0_100"
    "semver_lt \<lparr>major = 6, minor = 0, patch = 404, prerelease = []\<rparr> v7_0_100"
    by (simp_all add: semver_lt_release v6_0_100_def v7_0_100_def)
  note t = template_listing_arguments [THEN conjunct1, rule_format, OF a]
  from t [of "\<lparr>major = 6, minor = 0, patch = 100, prerelease = [Alphanumeric ''rc'', Numeric 1]\<rparr>" "Some ''C#''"]
    t [of "\<lparr>major = 6, minor = 0, patch = 404, prerelease = []\<rparr>" None] a b c
  show ?thesis by simp
qed

subsection \<open>The split of format\<close>

lemma unless_false_frame:
  "env (fst (unless_false flag cl w ps)) = env w"
  "spawnSync_result (fst (unless_false flag cl w ps)) = spawnSync_result w"
  "process_cwd (fst (unless_false flag cl w ps)) = process_cwd w"
  by (simp_all add: unless_false_def logAndExecute_frame)

lemma unless_false_dispatched:
  "dispatched (events (fst (unless_false flag cl w ps))) =
     dispatched (events w) @ (if flag \<noteq> JBool False then [map (replace_var (env w)) ps] else [])"
  by (simp add: unless_false_def logAndExecute_world dispatched_append)

lemma exit_status_frame:
  "env w' = env w \<Longrightarrow> spawnSync_result w' = spawnSync_result w \<Longrightarrow> process_cwd w' = process_cwd w \<Longrightarrow>
   exit_status cl w' ps = exit_status cl w ps"
  by (simp add: exit_status_def working_dir_def cong: option.case_cong if_cong)

lemma unless_false_result:
  "snd (unless_false flag cl w ps) =
     (if flag \<noteq> JBool False \<and> exit_status cl w ps \<noteq> Some 0
      then Inl (Error (''dotnet execution returned status code '' @ show_status (exit_status cl w ps)))
      else Inr ())"
  by (simp add: unless_false_def logAndExecute_result exit_status_def)

lemma format_steps:
  assumes x1: "unless_false f1 cl w p1 = (w1, r1)"
    and x2: "unless_false f2 cl w1 p2 = (w2, r2)"
    and x3: "unless_false f3 cl w2 p3 = (w3, r3)"
    and res: "res = (case r1 of Inl e \<Rightarrow> (w1, x, Inl e)
                     | Inr u1 \<Rightarrow> (case r2 of Inl e \<Rightarrow> (w2, x, Inl e) | Inr u2 \<Rightarrow> (w3, x, r3)))"
  shows "dispatched (events (fst res)) =
      dispatched (events w) @ map (map (replace_var (env w)))
        ((if f1 \<noteq> JBool False then [p1] else [])
         @ (if (f1 = JBool False \<or> exit_status cl w p1 = Some 0) \<and> f2 \<noteq> JBool False then [p2] else [])
         @ (if (f1 = JBool False \<or> exit_status cl w p1 = Some 0)
               \<and> (f2 = JBool False \<or> exit_status cl w p2 = Some 0) \<and> f3 \<noteq> JBool False
            then [p3] else []))"
    and "snd (snd res) =
      (if f1 \<noteq> JBool False \<and> exit_status cl w p1 \<noteq> Some 0
       then Inl (Error (''dotnet execution returned status code '' @ show_status (exit_status cl w p1)))
       else if f2 \<noteq> JBool False \<and> exit_status cl w p2 \<noteq> Some 0
       then Inl (Error (''dotnet execution returned status code '' @ show_status (exit_status cl w p2)))
       else if f3 \<noteq> JBool False \<and> exit_status cl w p3 \<noteq> Some 0
       then Inl (Error (''dotnet execution returned status code '' @ show_status (exit_status cl w p3)))
       else Inr ())"
proof -
  have fr1: "env w1 = env w" "spawnSync_result w1 = spawnSync_result w" "process_cwd w1 = process_cwd w"
    using unless_false_frame [of f1 cl w p1] x1 by simp_all
  have fr2: "env w2 = env w" "spawnSync_result w2 = spawnSync_result w" "process_cwd w2 = process_cwd w"
    using unless_false_frame [of f2 cl w1 p2] x2 fr1 by simp_all
  have e1: "exit_status cl w1 ps = exit_status cl w ps" for ps
    using fr1 by (rule exit_status_frame)
  have e2: "exit_status cl w2 ps = exit_status cl w ps" for ps
    using fr2 by (rule exit_status_frame)
  have r1: "r1 = (if f1 \<noteq> JBool False \<and> exit_status cl w p1 \<noteq> Some 0
       then Inl (Error (''dotnet execution returned status code '' @ show_status (exit_status cl w p1)))
       else Inr ())"
    using unless_false_result [of f1 cl w p1] x1 by simp
  have r2: "r2 = (if f2 \<noteq> JBool False \<and> exit_status cl w p2 \<noteq> Some 0
       then Inl (Error (''dotnet execution returned status code '' @ show_status (exit_status cl w p2)))
       else Inr ())"
    using unless_false_result [of f2 cl w1 p2] x2 by (simp add: e1)
  have r3: "r3 = (if f3 \<noteq> JBool False \<and> exit_status cl w p3 \<noteq> Some 0
       then Inl (Error (''dotnet execution returned status code '' @ show_status (exit_status cl w p3)))
       else Inr ())"
    using unless_false_result [of f3 cl w2 p3] x3 by (simp add: e2)
  have d1: "dispatched (events w1) = dispatched (events w)
       @ (if f1 \<noteq> JBool False then [map (replace_var (env w)) p1] else [])"
    using unless_false_dispatched [of f1 cl w p1] x1 by simp
  have d2: "dispatched (events w2) = dispatched (events w1)
       @ (if f2 \<noteq> JBool False then [map (replace_var (env w)) p2] else [])"
    using unless_false_dispatched [of f2 cl w1 p2] x2 fr1 by simp
  have d3: "dispatched (events w3) = dispatched (events w2)
       @ (if f3 \<noteq> JBool False then [map (replace_var (env w)) p3] else [])"
    using unless_false_dispatched [of f3 cl w2 p3] x3 fr2 by simp
  show "dispatched (events (fst res)) =
      dispatched (events w) @ map (map (replace_var (env w)))
        ((if f1 \<noteq> JBool False then [p1] else [])
         @ (if (f1 = JBool False \<or> exit_status cl w p1 = Some 0) \<and> f2 \<noteq> JBool False then [p2] else [])
         @ (if (f1 = JBool False \<or> exit_status cl w p1 = Some 0)
               \<and> (f2 = JBool False \<or> exit_status cl w p2 = Some 0) \<and> f3 \<noteq> JBool False
            then [p3] else []))"
    unfolding res r1 r2 r3 by (simp add: d1 d2 d3)
  show "snd (snd res) =
      (if f1 \<noteq> JBool False \<and> exit_status cl w p1 \<noteq> Some 0
       then Inl (Error (''dotnet execution returned status code '' @ show_status (exit_status cl w p1)))
       else if f2 \<noteq> JBool False \<and> exit_status cl w p2 \<noteq> Some 0
       then Inl (Error (''dotnet execution returned status code '' @ show_status (exit_status cl w p2)))
       else if f3 \<noteq> JBool False \<and> exit_status cl w p3 \<noteq> Some 0
       then Inl (Error (''dotnet execution returned status code '' @ show_status (exit_status cl w p3)))
       else Inr ())"
    unfolding res r1 r2 r3 by simp
qed

lemma format_object:
  assumes "format_split cl (Some ob)"
  shows "fst (snd (format d cl w project (Some ob) force)) = Some (without_fix_keys ob)"
proof -
  obtain w1 r1 where x1: "unless_false (obj_get ob ''fixWhitespace'') cl w
      (whitespace_params d (format_prefix force) project (without_fix_keys ob)) = (w1, r1)"
    by (cases "unless_false (obj_get ob ''fixWhitespace'') cl w
      (whitespace_params d (format_prefix force) project (without_fix_keys ob))")
  obtain w2 r2 where x2: "unless_false (obj_get ob ''fixStyle'') cl w1
      (style_params d (format_prefix force) project (obj_get ob ''fixStyle'') (without_fix_keys ob)) = (w2, r2)"
    by (cases "unless_false (obj_get ob ''fixStyle'') cl w1
      (style_params d (format_prefix force) project (obj_get ob ''fixStyle'') (without_fix_keys ob))")
  obtain w3 r3 where x3: "unless_false (obj_get ob ''fixAnalyzers'') cl w2
      (analyzers_params d (format_prefix force) project (obj_get ob ''fixAnalyzers'') (without_fix_keys ob)) = (w3, r3)"
    by (cases "unless_false (obj_get ob ''fixAnalyzers'') cl w2
      (analyzers_params d (format_prefix force) project (obj_get ob ''fixAnalyzers'') (without_fix_keys ob))")
  show ?thesis
    unfolding format_def Let_def
    using assms x1 x2 x3 by (cases r1; cases r2) simp_all
qed

lemma delete_filter: "AList.delete k ob = filter (\<lambda>kv. fst kv \<noteq> k) ob"
  by (induction ob) auto

lemma without_fix_keys_filter:
  "without_fix_keys ob =
     filter (\<lambda>kv. fst kv \<noteq> ''fixWhitespace'' \<and> fst kv \<noteq> ''fixStyle'' \<and> fst kv \<noteq> ''fixAnalyzers'') ob"
  unfolding without_fix_keys_def delete_filter filter_filter
  by (rule filter_cong) blast+

lemma sample_split:
  "format_split (sample_client v6_0_100) (Some ((''fixWhitespace'', JBool False) # ob))"
  by (simp add: format_split_def sample_client_def v6_0_100_def opt_get_def obj_get_def)

text \<open>
  C1, as the source has it. On the split path \<^verbatim>\<open>format\<close> goes through \<^verbatim>\<open>whitespace\<close>,
  \<^verbatim>\<open>style\<close> and \<^verbatim>\<open>analyzers\<close> in this order. A sub-invocation runs exactly when its flag
  is not the boolean \<^verbatim>\<open>false\<close> and every sub-invocation that ran before it exited with
  status 0; a flag that is not set counts as not \<^verbatim>\<open>false\<close>. The call raises the error of
  the first sub-invocation that exits with another status and returns nothing when there
  is none. For SDK major version 6 and \<^verbatim>\<open>{fixWhitespace: false, fixStyle: true}\<close> this is
  \<^verbatim>\<open>style\<close> and, when \<^verbatim>\<open>style\<close> exits with status 0, \<^verbatim>\<open>analyzers\<close> after it.
\<close>

theorem format_sub_invocations:
  assumes "format_split cl (Some ob)"
  shows "dispatched (events (fst (format d cl w project (Some ob) force)))
      = dispatched (events w) @ map (map (replace_var (env w)))
         ((if obj_get ob ''fixWhitespace'' \<noteq> JBool False
           then [whitespace_params d (format_prefix force) project (without_fix_keys ob)] else [])
          @ (if (obj_get ob ''fixWhitespace'' = JBool False
                 \<or> exit_status cl w (whitespace_params d (format_prefix force) project (without_fix_keys ob)) = Some 0)
                \<and> obj_get ob ''fixStyle'' \<noteq> JBool False
             then [style_params d (format_prefix force) project (obj_get ob ''fixStyle'') (without_fix_keys ob)]
             else [])
          @ (if (obj_get ob ''fixWhitespace'' = JBool False
                 \<or> exit_status cl w (whitespace_params d (format_prefix force) project (without_fix_keys ob)) = Some 0)
                \<and> (obj_get ob ''fixStyle'' = JBool False
                 \<or> exit_status cl w (style_params d (format_prefix force) project (obj_get ob ''fixStyle'')
                       (without_fix_keys ob)) = Some 0)
                \<and> obj_get ob ''fixAnalyzers'' \<noteq> JBool False
             then [analyzers_params d (format_prefix force) project (obj_get ob ''fixAnalyzers'') (without_fix_keys ob)]
             else []))
    \<and> snd (snd (format d cl w project (Some ob) force))
      = (if obj_get ob ''fixWhitespace'' \<noteq> JBool False
            \<and> exit_status cl w (whitespace_params d (format_prefix force) project (without_fix_keys ob)) \<noteq> Some 0
         then Inl (Error (''dotnet execution returned status code '' @ show_status
                (exit_status cl w (whitespace_params d (format_prefix force) project (without_fix_keys ob)))))
         else if obj_get ob ''fixStyle'' \<noteq> JBool False
            \<and> exit_status cl w (style_params d (format_prefix force) project (obj_get ob ''fixStyle'')
                  (without_fix_keys ob)) \<noteq> Some 0
         then Inl (Error (''dotnet execution returned status code '' @ show_status
                (exit_status cl w (style_params d (format_prefix force) project (obj_get ob ''fixStyle'')
                  (without_fix_keys ob)))))
         else if obj_get ob ''fixAnalyzers'' \<noteq> JBool False
            \<and> exit_status cl w (analyzers_params d (format_prefix force) project (obj_get ob ''fixAnalyzers'')
                  (without_fix_keys ob)) \<noteq> Some 0
         then Inl (Error (''dotnet execution returned status code '' @ show_status
                (exit_status cl w (analyzers_params d (format_prefix force) project (obj_get ob ''fixAnalyzers'')
                  (without_fix_keys ob)))))
         else Inr ())"
proof -
  let ?ws = "whitespace_params d (format_prefix force) project (without_fix_keys ob)"
  let ?st = "style_params d (format_prefix force) project (obj_get ob ''fixStyle'') (without_fix_keys ob)"
  let ?an = "analyzers_params d (format_prefix force) project (obj_get ob ''fixAnalyzers'') (without_fix_keys ob)"
  let ?f = "format d cl w project (Some ob) force"
  obtain w1 r1 where x1: "unless_false (obj_get ob ''fixWhitespace'') cl w ?ws = (w1, r1)"
    by (cases "unless_false (obj_get ob ''fixWhitespace'') cl w ?ws")
  obtain w2 r2 where x2: "unless_false (obj_get ob ''fixStyle'') cl w1 ?st = (w2, r2)"
    by (cases "unless_false (obj_get ob ''fixStyle'') cl w1 ?st")
  obtain w3 r3 where x3: "unless_false (obj_get ob ''fixAnalyzers'') cl w2 ?an = (w3, r3)"
    by (cases "unless_false (obj_get ob ''fixAnalyzers'') cl w2 ?an")
  have f: "?f = (case r1 of Inl e \<Rightarrow> (w1, Some (without_fix_keys ob), Inl e)
                 | Inr u1 \<Rightarrow> (case r2 of Inl e \<Rightarrow> (w2, Some (without_fix_keys ob), Inl e)
                              | Inr u2 \<Rightarrow> (w3, Some (without_fix_keys ob), r3)))"
    unfolding format_def Let_def using assms x1 x2 x3 by (cases r1; cases r2) simp_all
  show ?thesis
    by (rule conjI) (rule format_steps(1) [OF x1 x2 x3 f], rule format_steps(2) [OF x1 x2 x3 f])
qed

theorem format_sub_invocations_witness:
  "format_split (sample_client v6_0_100) (Some [(''fixWhitespace'', JBool False), (''fixStyle'', JBool True)])
   \<and> dispatched (events (fst (format sample_deps (sample_client v6_0_100) (sample_world 0) ''proj''
         (Some [(''fixWhitespace'', JBool False), (''fixStyle'', JBool True)]) None)))
       = [[''format'', ''style'', ''proj''], [''format'', ''analyzers'', ''proj'']]
   \<and> snd (snd (format sample_deps (sample_client v6_0_100) (sample_world 0) ''proj''
         (Some [(''fixWhitespace'', JBool False), (''fixStyle'', JBool True)]) None)) = Inr ()
   \<and> dispatched (events (fst (format sample_deps (sample_client v6_0_100) (sample_world 1) ''proj''
         (Some [(''fixWhitespace'', JBool False), (''fixStyle'', JBool True)]) None)))
       = [[''format'', ''style'', ''proj'']]
   \<and> snd (snd (format sample_deps (sample_client v6_0_100) (sample_world 1) ''proj''
         (Some [(''fixWhitespace'', JBool False), (''fixStyle'', JBool True)]) None))
       = Inl (Error ''dotnet execution returned status code 1'')
   \<and> dispatched (events (fst (format sample_deps (sample_client v6_0_100) (sample_world 0) ''proj''
         (Some [(''fixStyle'', JStr ''warn''), (''verbosity'', JStr ''q'')]) None)))
       = [[''format'', ''whitespace'', ''proj'', ''--verbosity'', ''q''],
          [''format'', ''style'', ''proj'', ''--verbosity'', ''q'', ''--severity'', ''warn''],
          [''format'', ''analyzers'', ''proj'', ''--verbosity'', ''q'']]"
proof -
  let ?ob = "[(''fixWhitespace'', JBool False), (''fixStyle'', JBool True)]"
  let ?ob2 = "[(''fixStyle'', JStr ''warn''), (''verbosity'', JStr ''q'')]"
  have sp: "format_split (sample_client v6_0_100) (Some ?ob)"
    by (rule sample_split)
  have sp2: "format_split (sample_client v6_0_100) (Some ?ob2)"
    by (simp add: format_split_def sample_client_def v6_0_100_def opt_get_def obj_get_def)
  have ex: "exit_status (sample_client v6_0_100) (sample_world st) ps = Some st" for st ps
    by (simp add: exit_status_def sample_world_simps)
  have g: "obj_get ?ob ''fixWhitespace'' = JBool False" "obj_get ?ob ''fixStyle'' = JBool True"
    "obj_get ?ob ''fixAnalyzers'' = JUndefined"
    "obj_get ?ob2 ''fixWhitespace'' = JUndefined" "obj_get ?ob2 ''fixStyle'' = JStr ''warn''"
    "obj_get ?ob2 ''fixAnalyzers'' = JUndefined"
    by (simp_all add: obj_get_def)
  have k: "without_fix_keys ?ob = []" "without_fix_keys ?ob2 = [(''verbosity'', JStr ''q'')]"
    by (simp_all add: without_fix_keys_def)
  have p: "style_params sample_deps (format_prefix None) ''proj'' (JBool True) [] = [''format'', ''style'', ''proj'']"
    "analyzers_params sample_deps (format_prefix None) ''proj'' JUndefined [] = [''format'', ''analyzers'', ''proj'']"
    "whitespace_params sample_deps (format_prefix None) ''proj'' [(''verbosity'', JStr ''q'')]
       = [''format'', ''whitespace'', ''proj'', ''--verbosity'', ''q'']"
    "style_params sample_deps (format_prefix None) ''proj'' (JStr ''warn'') [(''verbosity'', JStr ''q'')]
       = [''format'', ''style'', ''proj'', ''--verbosity'', ''q'', ''--severity'', ''warn'']"
    "analyzers_params sample_deps (format_prefix None) ''proj'' JUndefined [(''verbosity'', JStr ''q'')]
       = [''format'', ''analyzers'', ''proj'', ''--verbosity'', ''q'']"
    by (simp_all add: whitespace_params_def style_params_def analyzers_params_def format_prefix_def
        truthy_bool_def sample_deps_simps spec_getSpawnParameterArray_def)
  note t0 = format_sub_invocations [OF sp, of sample_deps "sample_world 0" "''proj''" None, unfolded g k p ex]
  note t1 = format_sub_invocations [OF sp, of sample_deps "sample_world 1" "''proj''" None, unfolded g k p ex]
  note t2 = format_sub_invocations [OF sp2, of sample_deps "sample_world 0" "''proj''" None, unfolded g k p ex]
  from sp t0 t1 t2 show ?thesis
    by (simp add: sample_world_simps show_status_1)
qed

text \<open>
  C1 as it is stated has one sub-invocation for SDK major version 6 and the parameters
  \<^verbatim>\<open>{fixWhitespace: false, fixStyle: true}\<close>. There are two: \<^verbatim>\<open>fixAnalyzers\<close> is not set,
  so \<^verbatim>\<open>analyzers\<close> runs after \<^verbatim>\<open>style\<close>.
\<close>

theorem format_example_runs_two:
  "dispatched (events (fst (format sample_deps (sample_client v6_0_100) (sample_world 0) ''proj''
       (Some [(''fixWhitespace'', JBool False), (''fixStyle'', JBool True)]) None)))
     = [[''format'', ''style'', ''proj''], [''format'', ''analyzers'', ''proj'']]
   \<and> length (dispatched (events (fst (format sample_deps (sample_client v6_0_100) (sample_world 0) ''proj''
       (Some [(''fixWhitespace'', JBool False), (''fixStyle'', JBool True)]) None)))) \<noteq> 1
   \<and> major (version (cliCommand (sample_client v6_0_100))) = 6"
proof -
  have u1: "unless_false (JBool False) (sample_client v6_0_100) (sample_world 0) ps = (sample_world 0, Inr ())" for ps
    by (simp add: unless_false_def)
  have d: "dispatched (events (fst (format sample_deps (sample_client v6_0_100) (sample_world 0) ''proj''
       (Some [(''fixWhitespace'', JBool False), (''fixStyle'', JBool True)]) None)))
     = [[''format'', ''style'', ''proj''], [''format'', ''analyzers'', ''proj'']]"
    by (simp add: format_def Let_def sample_split obj_get_def u1 unless_false_def logAndExecute_def
        console_log_def emit_def sample_client_simps sample_world_def format_prefix_def truthy_bool_def
        style_params_def analyzers_params_def without_fix_keys_def sample_deps_simps
        spec_getSpawnParameterArray_def)
  show ?thesis
    unfolding d by (simp add: sample_client_simps v6_0_100_def)
qed

text \<open>
  C9. On the split path \<^verbatim>\<open>format\<close> deletes the keys \<^verbatim>\<open>fixWhitespace\<close>, \<^verbatim>\<open>fixStyle\<close> and
  \<^verbatim>\<open>fixAnalyzers\<close> from the object of the caller: after the call the object is the one
  before it without these three keys, every other property in its place with its
  value. This holds also when a sub-invocation raises.
\<close>

theorem format_deletes_fix_keys:
  assumes "format_split cl (Some ob)"
  shows "fst (snd (format d cl w project (Some ob) force)) = Some (without_fix_keys ob)
    \<and> without_fix_keys ob =
        filter (\<lambda>kv. fst kv \<noteq> ''fixWhitespace'' \<and> fst kv \<noteq> ''fixStyle'' \<and> fst kv \<noteq> ''fixAnalyzers'') ob
    \<and> ''fixWhitespace'' \<notin> fst ` set (without_fix_keys ob)
    \<and> ''fixStyle'' \<notin> fst ` set (without_fix_keys ob)
    \<and> ''fixAnalyzers'' \<notin> fst ` set (without_fix_keys ob)
    \<and> (\<forall>k. k \<noteq> ''fixWhitespace'' \<and> k \<noteq> ''fixStyle'' \<and> k \<noteq> ''fixAnalyzers'' \<longrightarrow>
          map_of (without_fix_keys ob) k = map_of ob k)"
proof (intro conjI allI impI)
  show "fst (snd (format d cl w project (Some ob) force)) = Some (without_fix_keys ob)"
    using assms by (rule format_object)
  show "without_fix_keys ob =
        filter (\<lambda>kv. fst kv \<noteq> ''fixWhitespace'' \<and> fst kv \<noteq> ''fixStyle'' \<and> fst kv \<noteq> ''fixAnalyzers'') ob"
    by (rule without_fix_keys_filter)
  show "''fixWhitespace'' \<notin> fst ` set (without_fix_keys ob)"
    unfolding without_fix_keys_filter by auto
  show "''fixStyle'' \<notin> fst ` set (without_fix_keys ob)"
    unfolding without_fix_keys_filter by auto
  show "''fixAnalyzers'' \<notin> fst ` set (without_fix_keys ob)"
    unfolding without_fix_keys_filter by auto
next
  fix k :: string
  assume "k \<noteq> ''fixWhitespace'' \<and> k \<noteq> ''fixStyle'' \<and> k \<noteq> ''fixAnalyzers''"
  then show "map_of (without_fix_keys ob) k = map_of ob k"
    unfolding without_fix_keys_def by (simp add: delete_conv)
qed

theorem format_deletes_fix_keys_witness:
  "format_split (sample_client v6_0_100) (Some [(''fixWhitespace'', JBool False), (''verbosity'', JStr ''q'')])
   \<and> fst (snd (format sample_deps (sample_client v6_0_100) (sample_world 0) ''proj''
       (Some [(''fixWhitespace'', JBool False), (''verbosity'', JStr ''q'')]) None))
     = Some [(''verbosity'', JStr ''q'')]"
proof -
  have sp: "format_split (sample_client v6_0_100) (Some [(''fixWhitespace'', JBool False), (''verbosity'', JStr ''q'')])"
    by (rule sample_split)
  from format_deletes_fix_keys [OF sp, of sample_deps "sample_world 0" "''proj''" None, THEN conjunct1] sp
  show ?thesis by (simp add: without_fix_keys_def)
qed

end
